theory Spec2Isabelle
  imports Complex_Main
begin

section \<open>Data model of train.py\<close>

text \<open>
  The script \<^verbatim>\<open>train.py\<close> keeps its state in module-level variables and in the
  objects it creates from PyTorch, torchnet and pandas. The embedding threads one
  record of those variables through every function. Calls to the outside world
  (loggers, \<^verbatim>\<open>torch.save\<close>, the scheduler, \<^verbatim>\<open>to_csv\<close>, the forward pass and the
  gradient step) are appended to a trace, in program order.

  Losses and accuracies are Python floats. The script compares only accuracies
  (\<^verbatim>\<open>meter_accuracy.value()[0] > best_accuracy\<close>); they are modelled as reals.
\<close>

datatype split = Train | Val | Test

type_synonym results = "(string \<times> real list) list"

record csv =
  csv_header :: "string list"
  csv_lines :: "(int \<times> real list) list"

datatype 'w stored = Checkpoint 'w | Statistics csv

datatype 'w event =
    Reset_meters
  | is_Begin_pass: Begin_pass split
  | is_Forward: Forward bool bool
  | Zero_grad
  | Backward
  | Optimizer_step
  | Log_scalar string int real string
  | Log_confusion string "real list list"
  | is_Print: Print split int real real real
  | is_Torch_save: Torch_save string 'w
  | is_Scheduler_step: Scheduler_step real
  | is_To_csv: To_csv string csv

datatype error = ValueError_gpus nat | ValueError_frame | Device_error | IndexError

text \<open>
  The module-level state. A meter is represented by the arguments of the \<^verbatim>\<open>add\<close>
  calls it has received since its last \<^verbatim>\<open>reset\<close>; its \<^verbatim>\<open>value()\<close> is a function of
  those (a collaborator, below). \<open>training\<close> is the mode flag set by
  \<^verbatim>\<open>model.train(flag)\<close>, \<open>grad_enabled\<close> the flag that \<^verbatim>\<open>torch.no_grad()\<close> clears.
\<close>

record ('w, 'p, 's, 'l, 'o) globals =
  DATA_TYPE :: string
  MODEL_TYPE :: string
  device_ids :: "int list"
  results :: results
  best_accuracy :: real
  weights :: 'w
  optimizer :: 'p
  scheduler :: 's
  training :: bool
  grad_enabled :: bool
  meter_loss :: "real list"
  meter_accuracy :: "('o \<times> 'l) list"
  meter_confusion :: "('o \<times> 'l) list"
  files :: "string \<rightharpoonup> 'w stored"
  trace :: "'w event list"

text \<open>
  The collaborators that are not part of the repository's sources: the network,
  the loss, the optimizer and scheduler, the \<^verbatim>\<open>value()\<close> of the three torchnet
  meters, the three loaders returned by \<^verbatim>\<open>utils.load_data\<close>, the model
  constructors, and the machine (device placement, which may fail, and the number
  of CUDA devices). They are parameters of the model.
  \<^verbatim>\<open>AverageValueMeter.value()\<close> is a pair whose component 0 the script reads;
  \<^verbatim>\<open>ClassErrorMeter(topk=[1, 5]).value()\<close> has the two components the script reads
  as \<^verbatim>\<open>[0]\<close> and \<^verbatim>\<open>[1]\<close>.
\<close>

record ('w, 'p, 's, 'd, 'l, 'o) env =
  model_forward :: "'w \<Rightarrow> bool \<Rightarrow> 'd \<Rightarrow> 'o"
  loss_criterion :: "'o \<Rightarrow> 'l \<Rightarrow> real"
  gradient_step :: "'p \<Rightarrow> 'w \<Rightarrow> 'd \<Rightarrow> 'l \<Rightarrow> 'w \<times> 'p"
  scheduler_step :: "real \<Rightarrow> 's \<Rightarrow> 'p \<Rightarrow> 's \<times> 'p"
  loss_value :: "real list \<Rightarrow> real \<times> real"
  accuracy_value :: "('o \<times> 'l) list \<Rightarrow> real \<times> real"
  confusion_value :: "('o \<times> 'l) list \<Rightarrow> real list list"
  train_loader :: "('d \<times> 'l) list"
  val_loader :: "('d \<times> 'l) list"
  test_loader :: "('d \<times> 'l) list"
  NUM_CLASS :: nat
  STTS :: "nat \<Rightarrow> string \<Rightarrow> 'w"
  R2Plus1D :: "nat \<Rightarrow> 'w"
  C3D :: "nat \<Rightarrow> 'w"
  adam :: "'w \<Rightarrow> 'p"
  reduce_lr_on_plateau :: "'p \<Rightarrow> 's"
  to_device :: "'w \<Rightarrow> int \<Rightarrow> 'w option"
  cuda_device_count :: nat

section \<open>The hooks and the batch processor\<close>

definition emit :: "'w event \<Rightarrow> ('w, 'p, 's, 'l, 'o) globals \<Rightarrow> ('w, 'p, 's, 'l, 'o) globals" where
  "emit e g = g\<lparr>trace := trace g @ [e]\<rparr>"

text \<open>\<^verbatim>\<open>processor\<close>: unpack the sample, set the mode, run the network, compute the loss.\<close>

definition processor ::
  "('w, 'p, 's, 'd, 'l, 'o) env \<Rightarrow> 'd \<times> 'l \<times> bool \<Rightarrow> ('w, 'p, 's, 'l, 'o) globals
    \<Rightarrow> (real \<times> 'o) \<times> ('w, 'p, 's, 'l, 'o) globals" where
  "processor E sample g =
     (case sample of (data, labels, training') \<Rightarrow>
        let g1 = g\<lparr>training := training'\<rparr>;
            classes = model_forward E (weights g1) training' data;
            g2 = emit (Forward training' (grad_enabled g1)) g1;
            loss = loss_criterion E classes labels
        in ((loss, classes), g2))"

text \<open>\<^verbatim>\<open>on_sample\<close>: append the engine's train flag to the sample.\<close>

definition on_sample :: "bool \<Rightarrow> 'd \<times> 'l \<Rightarrow> 'd \<times> 'l \<times> bool" where
  "on_sample train sample = (fst sample, snd sample, train)"

definition reset_meters :: "('w, 'p, 's, 'l, 'o) globals \<Rightarrow> ('w, 'p, 's, 'l, 'o) globals" where
  "reset_meters g =
     emit Reset_meters (g\<lparr>meter_accuracy := [], meter_loss := [], meter_confusion := []\<rparr>)"

text \<open>\<^verbatim>\<open>on_forward\<close>: feed output and labels to the accuracy and confusion meters, the loss to the loss meter.\<close>

definition on_forward ::
  "'o \<Rightarrow> 'l \<Rightarrow> real \<Rightarrow> ('w, 'p, 's, 'l, 'o) globals \<Rightarrow> ('w, 'p, 's, 'l, 'o) globals" where
  "on_forward output labels loss g =
     g\<lparr>meter_accuracy := meter_accuracy g @ [(output, labels)],
       meter_confusion := meter_confusion g @ [(output, labels)],
       meter_loss := meter_loss g @ [loss]\<rparr>"

text \<open>\<^verbatim>\<open>on_start_epoch\<close>: reset the meters (the progress-bar wrapper changes no batch).\<close>

definition on_start_epoch :: "('w, 'p, 's, 'l, 'o) globals \<Rightarrow> ('w, 'p, 's, 'l, 'o) globals" where
  "on_start_epoch g = reset_meters g"

section \<open>on_end_epoch\<close>

definition split_name :: "split \<Rightarrow> string" where
  "split_name sp = (case sp of Train \<Rightarrow> ''train'' | Val \<Rightarrow> ''val'' | Test \<Rightarrow> ''test'')"

definition confusion_title :: "split \<Rightarrow> string" where
  "confusion_title sp =
     (case sp of Train \<Rightarrow> ''Train Confusion Matrix'' | Val \<Rightarrow> ''Val Confusion Matrix''
      | Test \<Rightarrow> ''Test Confusion Matrix'')"

text \<open>\<^verbatim>\<open>results[key].append(v)\<close> on the dictionary of nine lists.\<close>

definition results_append :: "string \<Rightarrow> real \<Rightarrow> results \<Rightarrow> results" where
  "results_append key v rs = map (\<lambda>(k, xs). if k = key then (k, xs @ [v]) else (k, xs)) rs"

text \<open>
  The block the script writes out three times, for train (lines 54 to 62), val (70 to 78)
  and test (96 to 104): log the three scalars and the confusion matrix, append the
  scalars to \<^verbatim>\<open>results\<close>, print the summary line.
\<close>

definition log_phase ::
  "('w, 'p, 's, 'd, 'l, 'o) env \<Rightarrow> split \<Rightarrow> int \<Rightarrow> ('w, 'p, 's, 'l, 'o) globals
    \<Rightarrow> ('w, 'p, 's, 'l, 'o) globals" where
  "log_phase E sp epoch g =
     (let name = split_name sp;
          loss = fst (loss_value E (meter_loss g));
          top1 = fst (accuracy_value E (meter_accuracy g));
          top5 = snd (accuracy_value E (meter_accuracy g));
          g1 = emit (Log_scalar ''Loss'' epoch loss name) g;
          g2 = emit (Log_scalar ''Top1 Accuracy'' epoch top1 name) g1;
          g3 = emit (Log_scalar ''Top5 Accuracy'' epoch top5 name) g2;
          g4 = emit (Log_confusion (confusion_title sp) (confusion_value E (meter_confusion g))) g3;
          g5 = g4\<lparr>results := results_append (name @ ''_loss'') loss (results g4)\<rparr>;
          g6 = g5\<lparr>results := results_append (name @ ''_top1_accuracy'') top1 (results g5)\<rparr>;
          g7 = g6\<lparr>results := results_append (name @ ''_top5_accuracy'') top5 (results g6)\<rparr>
      in emit (Print sp epoch loss top1 top5) g7)"

text \<open>\<^verbatim>\<open>with torch.no_grad(): body\<close>: the flag is cleared for the body and restored after it.\<close>

definition no_grad ::
  "(('w, 'p, 's, 'l, 'o) globals \<Rightarrow> ('w, 'p, 's, 'l, 'o) globals)
    \<Rightarrow> ('w, 'p, 's, 'l, 'o) globals \<Rightarrow> ('w, 'p, 's, 'l, 'o) globals" where
  "no_grad body g = (let prev = grad_enabled g in (body (g\<lparr>grad_enabled := False\<rparr>))\<lparr>grad_enabled := prev\<rparr>)"

text \<open>
  Modelled from the spec: torchnet's \<^verbatim>\<open>Engine.test\<close> is not among the sources. Section 4.3
  (Phase Runner) gives one pass over a loader: for each batch the batch processor is
  invoked, a gradient step is performed only if the training flag is set, and the
  outputs are then fed to the meters (here through the script's own hooks
  \<^verbatim>\<open>on_sample\<close> and \<^verbatim>\<open>on_forward\<close>). \<open>Begin_pass\<close> marks the start of the pass.
\<close>

definition test_batch ::
  "('w, 'p, 's, 'd, 'l, 'o) env \<Rightarrow> 'd \<times> 'l \<Rightarrow> ('w, 'p, 's, 'l, 'o) globals
    \<Rightarrow> ('w, 'p, 's, 'l, 'o) globals" where
  "test_batch E sample g =
     (let sample' = on_sample False sample;
          ((loss, output), g1) = processor E sample' g
      in on_forward output (fst (snd sample')) loss g1)"

definition engine_test ::
  "('w, 'p, 's, 'd, 'l, 'o) env \<Rightarrow> split \<Rightarrow> ('d \<times> 'l) list \<Rightarrow> ('w, 'p, 's, 'l, 'o) globals
    \<Rightarrow> ('w, 'p, 's, 'l, 'o) globals" where
  "engine_test E sp loader g = fold (test_batch E) loader (emit (Begin_pass sp) g)"

text \<open>Lines 80 to 87: save the model when the validation top1 accuracy beats the best so far.\<close>

definition torch_save ::
  "'w \<Rightarrow> string \<Rightarrow> ('w, 'p, 's, 'l, 'o) globals \<Rightarrow> ('w, 'p, 's, 'l, 'o) globals" where
  "torch_save obj path g = emit (Torch_save path obj) (g\<lparr>files := (files g)(path \<mapsto> Checkpoint obj)\<rparr>)"

definition checkpoint_path :: "('w, 'p, 's, 'l, 'o) globals \<Rightarrow> string" where
  "checkpoint_path g = ''epochs/'' @ DATA_TYPE g @ ''_'' @ MODEL_TYPE g @ ''.pth''"

definition save_best_model ::
  "('w, 'p, 's, 'd, 'l, 'o) env \<Rightarrow> ('w, 'p, 's, 'l, 'o) globals \<Rightarrow> ('w, 'p, 's, 'l, 'o) globals" where
  "save_best_model E g =
     (if fst (accuracy_value E (meter_accuracy g)) > best_accuracy g then
        let g1 = (if length (device_ids g) > 1 then torch_save (weights g) (checkpoint_path g) g
                  else torch_save (weights g) (checkpoint_path g) g)
        in g1\<lparr>best_accuracy := fst (accuracy_value E (meter_accuracy g1))\<rparr>
      else g)"

text \<open>Line 89: \<^verbatim>\<open>scheduler.step(meter_loss.value()[0])\<close>; the scheduler may change the optimizer's rate.\<close>

definition lr_step ::
  "('w, 'p, 's, 'd, 'l, 'o) env \<Rightarrow> ('w, 'p, 's, 'l, 'o) globals \<Rightarrow> ('w, 'p, 's, 'l, 'o) globals" where
  "lr_step E g =
     (let loss = fst (loss_value E (meter_loss g));
          (s', p') = scheduler_step E loss (scheduler g) (optimizer g)
      in emit (Scheduler_step loss) (g\<lparr>scheduler := s', optimizer := p'\<rparr>))"

text \<open>
  Lines 106 to 108. \<^verbatim>\<open>pd.DataFrame(data=results, index=range(1, epoch + 1))\<close> raises
  a ValueError unless every column has as many entries as the index; row \<open>i\<close> holds
  entry \<open>i\<close> of every column, in the dictionary's order. \<^verbatim>\<open>to_csv\<close> writes the file
  anew: a header line with the index label and the column names, then one line per row.
\<close>

record data_frame =
  columns :: "string list"
  index :: "int list"
  rows :: "real list list"

definition DataFrame :: "results \<Rightarrow> int list \<Rightarrow> error + data_frame" where
  "DataFrame data idx =
     (if list_all (\<lambda>(k, xs). length xs = length idx) data then
        Inr \<lparr>columns = map fst data, index = idx,
             rows = map (\<lambda>i. map (\<lambda>(k, xs). xs ! i) data) [0..<length idx]\<rparr>
      else Inl ValueError_frame)"

definition statistics_path :: "('w, 'p, 's, 'l, 'o) globals \<Rightarrow> string" where
  "statistics_path g = ''statistics/'' @ DATA_TYPE g @ ''_'' @ MODEL_TYPE g @ ''_results.csv''"

definition to_csv ::
  "data_frame \<Rightarrow> string \<Rightarrow> string \<Rightarrow> ('w, 'p, 's, 'l, 'o) globals \<Rightarrow> ('w, 'p, 's, 'l, 'o) globals" where
  "to_csv df path index_label g =
     (let c = \<lparr>csv_header = index_label # columns df, csv_lines = zip (index df) (rows df)\<rparr>
      in emit (To_csv path c) (g\<lparr>files := (files g)(path \<mapsto> Statistics c)\<rparr>))"

definition save_statistics ::
  "int \<Rightarrow> ('w, 'p, 's, 'l, 'o) globals \<Rightarrow> (error \<times> 'w event list) + ('w, 'p, 's, 'l, 'o) globals" where
  "save_statistics epoch g =
     (case DataFrame (results g) [1..epoch] of
        Inl e \<Rightarrow> Inl (e, trace g)
      | Inr df \<Rightarrow> Inr (to_csv df (statistics_path g) ''epoch'' g))"

text \<open>\<^verbatim>\<open>on_end_epoch\<close>, in the order of its lines; \<open>epoch\<close> is \<^verbatim>\<open>state['epoch']\<close>.\<close>

definition on_end_epoch ::
  "('w, 'p, 's, 'd, 'l, 'o) env \<Rightarrow> int \<Rightarrow> ('w, 'p, 's, 'l, 'o) globals
    \<Rightarrow> (error \<times> 'w event list) + ('w, 'p, 's, 'l, 'o) globals" where
  "on_end_epoch E epoch g =
     (let g1 = log_phase E Train epoch g;
          g2 = reset_meters g1;
          g3 = no_grad (engine_test E Val (val_loader E)) g2;
          g4 = log_phase E Val epoch g3;
          g5 = save_best_model E g4;
          g6 = lr_step E g5;
          g7 = reset_meters g6;
          g8 = no_grad (engine_test E Test (test_loader E)) g7;
          g9 = log_phase E Test epoch g8
      in save_statistics epoch g9)"

section \<open>The training engine and the main program\<close>

text \<open>
  Modelled from the spec: torchnet's \<^verbatim>\<open>Engine.train\<close> is not among the sources. Section 4.4
  (Epoch Orchestrator) and section 4.3 (Phase Runner) give the loop: while epochs remain,
  the start-of-epoch hook runs, then the training pass (for each batch the processor,
  then zero gradients, backpropagation and the optimizer step, then the meters), then
  the epoch counter is incremented and the end-of-epoch hook runs with it, so that the
  first epoch has index 1.
\<close>

definition train_batch ::
  "('w, 'p, 's, 'd, 'l, 'o) env \<Rightarrow> 'd \<times> 'l \<Rightarrow> ('w, 'p, 's, 'l, 'o) globals
    \<Rightarrow> ('w, 'p, 's, 'l, 'o) globals" where
  "train_batch E sample g =
     (let sample' = on_sample True sample;
          ((loss, output), g1) = processor E sample' g;
          g2 = emit Backward (emit Zero_grad g1);
          (w', p') = gradient_step E (optimizer g2) (weights g2) (fst sample') (fst (snd sample'));
          g3 = emit Optimizer_step (g2\<lparr>weights := w', optimizer := p'\<rparr>)
      in on_forward output (fst (snd sample')) loss g3)"

definition train_pass ::
  "('w, 'p, 's, 'd, 'l, 'o) env \<Rightarrow> ('w, 'p, 's, 'l, 'o) globals \<Rightarrow> ('w, 'p, 's, 'l, 'o) globals" where
  "train_pass E g = fold (train_batch E) (train_loader E) (emit (Begin_pass Train) g)"

definition run_epoch ::
  "('w, 'p, 's, 'd, 'l, 'o) env \<Rightarrow> int \<Rightarrow> ('w, 'p, 's, 'l, 'o) globals
    \<Rightarrow> (error \<times> 'w event list) + ('w, 'p, 's, 'l, 'o) globals" where
  "run_epoch E epoch g = on_end_epoch E (epoch + 1) (train_pass E (on_start_epoch g))"

function engine_train ::
  "('w, 'p, 's, 'd, 'l, 'o) env \<Rightarrow> int \<Rightarrow> int \<Rightarrow> ('w, 'p, 's, 'l, 'o) globals
    \<Rightarrow> (error \<times> 'w event list) + ('w, 'p, 's, 'l, 'o) globals" where
  "engine_train E maxepoch epoch g =
     (if epoch < maxepoch then
        (case run_epoch E epoch g of
           Inl e \<Rightarrow> Inl e
         | Inr g' \<Rightarrow> engine_train E maxepoch (epoch + 1) g')
      else Inr g)"
  by pat_completeness auto
termination
  by (relation "measure (\<lambda>(E, maxepoch, epoch, g). nat (maxepoch - epoch))") auto

text \<open>
  The main program. \<open>device_ids\<close> is the list parsed from \<^verbatim>\<open>--gpu_ids\<close> (line 122).
  The model is placed on the first device (line 144, which may fail in PyTorch);
  with more than one device requested the machine must have at least that many
  (lines 145 to 149). Then the meters are created and the engine trains.
\<close>

record opt =
  data_type :: string
  gpu_device_ids :: "int list"
  model_type :: string
  batch_size :: int
  num_epochs :: int

definition empty_results :: results where
  "empty_results =
     [(''train_loss'', []), (''train_top1_accuracy'', []), (''train_top5_accuracy'', []),
      (''val_loss'', []), (''val_top1_accuracy'', []), (''val_top5_accuracy'', []),
      (''test_loss'', []), (''test_top1_accuracy'', []), (''test_top5_accuracy'', [])]"

definition make_model :: "('w, 'p, 's, 'd, 'l, 'o) env \<Rightarrow> string \<Rightarrow> 'w" where
  "make_model E mt =
     (if mt = ''stts-a'' \<or> mt = ''stts'' then STTS E (NUM_CLASS E) mt
      else if mt = ''r2plus1d'' then R2Plus1D E (NUM_CLASS E)
      else C3D E (NUM_CLASS E))"

definition initial_globals ::
  "('w, 'p, 's, 'd, 'l, 'o) env \<Rightarrow> opt \<Rightarrow> 'w \<Rightarrow> ('w, 'p, 's, 'l, 'o) globals" where
  "initial_globals E op m =
     \<lparr>DATA_TYPE = data_type op, MODEL_TYPE = model_type op, device_ids = gpu_device_ids op,
      results = empty_results, best_accuracy = 0, weights = m,
      optimizer = adam E (make_model E (model_type op)),
      scheduler = reduce_lr_on_plateau E (adam E (make_model E (model_type op))),
      training = True, grad_enabled = True,
      meter_loss = [], meter_accuracy = [], meter_confusion = [],
      files = Map.empty, trace = []\<rparr>"


section \<open>Notions used in the statements\<close>

definition eval_outputs :: "('w, 'p, 's, 'd, 'l, 'o) env \<Rightarrow> 'w \<Rightarrow> ('d \<times> 'l) list \<Rightarrow> ('o \<times> 'l) list" where
  "eval_outputs E w loader = map (\<lambda>(d, l). (model_forward E w False d, l)) loader"

definition eval_losses :: "('w, 'p, 's, 'd, 'l, 'o) env \<Rightarrow> 'w \<Rightarrow> ('d \<times> 'l) list \<Rightarrow> real list" where
  "eval_losses E w loader = map (\<lambda>(d, l). loss_criterion E (model_forward E w False d) l) loader"

fun train_final :: "('w, 'p, 's, 'd, 'l, 'o) env \<Rightarrow> 'w \<times> 'p \<Rightarrow> ('d \<times> 'l) list \<Rightarrow> 'w \<times> 'p" where
  "train_final E wp [] = wp"
| "train_final E wp (b # bs) = train_final E (gradient_step E (snd wp) (fst wp) (fst b) (snd b)) bs"

fun train_outputs :: "('w, 'p, 's, 'd, 'l, 'o) env \<Rightarrow> 'w \<times> 'p \<Rightarrow> ('d \<times> 'l) list \<Rightarrow> ('o \<times> 'l) list" where
  "train_outputs E wp [] = []"
| "train_outputs E wp (b # bs) =
     (model_forward E (fst wp) True (fst b), snd b)
       # train_outputs E (gradient_step E (snd wp) (fst wp) (fst b) (snd b)) bs"

definition train_losses :: "('w, 'p, 's, 'd, 'l, 'o) env \<Rightarrow> 'w \<times> 'p \<Rightarrow> ('d \<times> 'l) list \<Rightarrow> real list" where
  "train_losses E wp bs = map (\<lambda>(out, l). loss_criterion E out l) (train_outputs E wp bs)"

definition final_trace ::
  "(error \<times> 'w event list) + ('w, 'p, 's, 'l, 'o) globals \<Rightarrow> 'w event list" where
  "final_trace r = (case r of Inl (e, t) \<Rightarrow> t | Inr g \<Rightarrow> trace g)"

definition validate ::
  "('w, 'p, 's, 'd, 'l, 'o) env \<Rightarrow> int \<Rightarrow> ('w, 'p, 's, 'l, 'o) globals \<Rightarrow> ('w, 'p, 's, 'l, 'o) globals" where
  "validate E epoch g =
     log_phase E Val epoch
       (no_grad (engine_test E Val (val_loader E)) (reset_meters (log_phase E Train epoch g)))"

definition finish_epoch ::
  "('w, 'p, 's, 'd, 'l, 'o) env \<Rightarrow> int \<Rightarrow> ('w, 'p, 's, 'l, 'o) globals
    \<Rightarrow> (error \<times> 'w event list) + ('w, 'p, 's, 'l, 'o) globals" where
  "finish_epoch E epoch g =
     save_statistics epoch
       (log_phase E Test epoch
         (no_grad (engine_test E Test (test_loader E)) (reset_meters (lr_step E g))))"

definition log_events ::
  "('w, 'p, 's, 'd, 'l, 'o) env \<Rightarrow> split \<Rightarrow> int \<Rightarrow> real list \<Rightarrow> ('o \<times> 'l) list \<Rightarrow> ('o \<times> 'l) list
    \<Rightarrow> 'w event list" where
  "log_events E sp epoch ml ma mc =
     [Log_scalar ''Loss'' epoch (fst (loss_value E ml)) (split_name sp),
      Log_scalar ''Top1 Accuracy'' epoch (fst (accuracy_value E ma)) (split_name sp),
      Log_scalar ''Top5 Accuracy'' epoch (snd (accuracy_value E ma)) (split_name sp),
      Log_confusion (confusion_title sp) (confusion_value E mc),
      Print sp epoch (fst (loss_value E ml)) (fst (accuracy_value E ma)) (snd (accuracy_value E ma))]"

definition trained_weights :: "('w, 'p, 's, 'd, 'l, 'o) env \<Rightarrow> ('w, 'p, 's, 'l, 'o) globals \<Rightarrow> 'w" where
  "trained_weights E g = fst (train_final E (weights g, optimizer g) (train_loader E))"

definition val_loss_of_epoch :: "('w, 'p, 's, 'd, 'l, 'o) env \<Rightarrow> ('w, 'p, 's, 'l, 'o) globals \<Rightarrow> real" where
  "val_loss_of_epoch E g = fst (loss_value E (eval_losses E (trained_weights E g) (val_loader E)))"

definition val_top1_of_epoch :: "('w, 'p, 's, 'd, 'l, 'o) env \<Rightarrow> ('w, 'p, 's, 'l, 'o) globals \<Rightarrow> real" where
  "val_top1_of_epoch E g = fst (accuracy_value E (eval_outputs E (trained_weights E g) (val_loader E)))"

section \<open>A small concrete run\<close>

definition demo_env :: "(int, int, int, int, int, int) env" where
  "demo_env =
     \<lparr>model_forward = (\<lambda>w t d. d + w div 3),
      loss_criterion = (\<lambda>out l. if out = l then 0 else 1),
      gradient_step = (\<lambda>p w d l. (w + 1, p)),
      scheduler_step = (\<lambda>loss s p. (s + 1, p)),
      loss_value = (\<lambda>xs. (sum_list xs, 0)),
      accuracy_value = (\<lambda>xs. (real (length (filter (\<lambda>(out, l). out = l) xs)), 100)),
      confusion_value = (\<lambda>xs. []),
      train_loader = [(0, 1)],
      val_loader = [(1, 1), (5, 6)],
      test_loader = [(1, 2)],
      NUM_CLASS = 2,
      STTS = (\<lambda>n mt. 0), R2Plus1D = (\<lambda>n. 0), C3D = (\<lambda>n. 0),
      adam = (\<lambda>w. 0), reduce_lr_on_plateau = (\<lambda>p. 0),
      to_device = (\<lambda>w d. Some w),
      cuda_device_count = 1\<rparr>"

definition demo_opt :: opt where
  "demo_opt = \<lparr>data_type = ''ucf101'', gpu_device_ids = [0], model_type = ''c3d'',
                batch_size = 16, num_epochs = 1\<rparr>"

definition demo_globals :: "(int, int, int, int, int) globals" where
  "demo_globals = initial_globals demo_env demo_opt 0"

definition demo_d :: "(int, int, int, int, int) globals" where
  "demo_d = validate demo_env 1 (train_pass demo_env (on_start_epoch demo_globals))"

section \<open>The operations as state updates\<close>

lemma test_batch_eq:
  "test_batch E (d, l) g =
     g\<lparr>training := False,
       meter_accuracy := meter_accuracy g @ [(model_forward E (weights g) False d, l)],
       meter_confusion := meter_confusion g @ [(model_forward E (weights g) False d, l)],
       meter_loss := meter_loss g @ [loss_criterion E (model_forward E (weights g) False d) l],
       trace := trace g @ [Forward False (grad_enabled g)]\<rparr>"
  by (simp add: test_batch_def on_sample_def processor_def on_forward_def emit_def Let_def)

lemma fold_test_batch:
  "fold (test_batch E) ld g =
     g\<lparr>training := (if ld = [] then training g else False),
       meter_accuracy := meter_accuracy g @ eval_outputs E (weights g) ld,
       meter_confusion := meter_confusion g @ eval_outputs E (weights g) ld,
       meter_loss := meter_loss g @ eval_losses E (weights g) ld,
       trace := trace g @ replicate (length ld) (Forward False (grad_enabled g))\<rparr>"
proof (induction ld arbitrary: g)
  case Nil
  show ?case by (simp add: eval_outputs_def eval_losses_def)
next
  case (Cons b ld)
  obtain d l where b: "b = (d, l)" by (cases b)
  show ?case
    by (simp add: b Cons.IH test_batch_eq eval_outputs_def eval_losses_def replicate_append_same)
qed

lemma train_batch_eq:
  "train_batch E (d, l) g =
     g\<lparr>training := True,
       weights := fst (gradient_step E (optimizer g) (weights g) d l),
       optimizer := snd (gradient_step E (optimizer g) (weights g) d l),
       meter_accuracy := meter_accuracy g @ [(model_forward E (weights g) True d, l)],
       meter_confusion := meter_confusion g @ [(model_forward E (weights g) True d, l)],
       meter_loss := meter_loss g @ [loss_criterion E (model_forward E (weights g) True d) l],
       trace := trace g @ [Forward True (grad_enabled g), Zero_grad, Backward, Optimizer_step]\<rparr>"
  by (simp add: train_batch_def on_sample_def processor_def on_forward_def emit_def Let_def
      split: prod.splits)

lemma fold_train_batch:
  "fold (train_batch E) ld g =
     g\<lparr>training := (if ld = [] then training g else True),
       weights := fst (train_final E (weights g, optimizer g) ld),
       optimizer := snd (train_final E (weights g, optimizer g) ld),
       meter_accuracy := meter_accuracy g @ train_outputs E (weights g, optimizer g) ld,
       meter_confusion := meter_confusion g @ train_outputs E (weights g, optimizer g) ld,
       meter_loss := meter_loss g @ train_losses E (weights g, optimizer g) ld,
       trace := trace g @ concat (replicate (length ld)
                  [Forward True (grad_enabled g), Zero_grad, Backward, Optimizer_step])\<rparr>"
proof (induction ld arbitrary: g)
  case Nil
  show ?case by (simp add: train_losses_def)
next
  case (Cons b ld)
  obtain d l where b: "b = (d, l)" by (cases b)
  show ?case
    by (simp add: b Cons.IH train_batch_eq train_losses_def)
qed

lemma engine_test_eq:
  "engine_test E sp ld g =
     g\<lparr>training := (if ld = [] then training g else False),
       meter_accuracy := meter_accuracy g @ eval_outputs E (weights g) ld,
       meter_confusion := meter_confusion g @ eval_outputs E (weights g) ld,
       meter_loss := meter_loss g @ eval_losses E (weights g) ld,
       trace := trace g @ Begin_pass sp # replicate (length ld) (Forward False (grad_enabled g))\<rparr>"
  by (simp add: engine_test_def fold_test_batch emit_def)

lemma no_grad_engine_test_eq:
  "no_grad (engine_test E sp ld) g =
     g\<lparr>training := (if ld = [] then training g else False),
       meter_accuracy := meter_accuracy g @ eval_outputs E (weights g) ld,
       meter_confusion := meter_confusion g @ eval_outputs E (weights g) ld,
       meter_loss := meter_loss g @ eval_losses E (weights g) ld,
       trace := trace g @ Begin_pass sp # replicate (length ld) (Forward False False)\<rparr>"
  by (simp add: no_grad_def engine_test_eq Let_def)

lemma reset_meters_eq:
  "reset_meters g =
     g\<lparr>meter_accuracy := [], meter_loss := [], meter_confusion := [],
       trace := trace g @ [Reset_meters]\<rparr>"
  by (simp add: reset_meters_def emit_def)

lemma save_best_model_eq:
  "save_best_model E g =
     (if best_accuracy g < fst (accuracy_value E (meter_accuracy g)) then
        g\<lparr>best_accuracy := fst (accuracy_value E (meter_accuracy g)),
          files := (files g)(checkpoint_path g \<mapsto> Checkpoint (weights g)),
          trace := trace g @ [Torch_save (checkpoint_path g) (weights g)]\<rparr>
      else g)"
  by (simp add: save_best_model_def torch_save_def emit_def Let_def)

lemma lr_step_eq:
  "lr_step E g =
     g\<lparr>scheduler := fst (scheduler_step E (fst (loss_value E (meter_loss g))) (scheduler g) (optimizer g)),
       optimizer := snd (scheduler_step E (fst (loss_value E (meter_loss g))) (scheduler g) (optimizer g)),
       trace := trace g @ [Scheduler_step (fst (loss_value E (meter_loss g)))]\<rparr>"
  by (simp add: lr_step_def emit_def Let_def split: prod.splits)

lemma log_phase_eq:
  "log_phase E sp epoch g =
     g\<lparr>results :=
         results_append (split_name sp @ ''_top5_accuracy'') (snd (accuracy_value E (meter_accuracy g)))
           (results_append (split_name sp @ ''_top1_accuracy'') (fst (accuracy_value E (meter_accuracy g)))
             (results_append (split_name sp @ ''_loss'') (fst (loss_value E (meter_loss g))) (results g))),
       trace := trace g @
         [Log_scalar ''Loss'' epoch (fst (loss_value E (meter_loss g))) (split_name sp),
          Log_scalar ''Top1 Accuracy'' epoch (fst (accuracy_value E (meter_accuracy g))) (split_name sp),
          Log_scalar ''Top5 Accuracy'' epoch (snd (accuracy_value E (meter_accuracy g))) (split_name sp),
          Log_confusion (confusion_title sp) (confusion_value E (meter_confusion g)),
          Print sp epoch (fst (loss_value E (meter_loss g))) (fst (accuracy_value E (meter_accuracy g)))
            (snd (accuracy_value E (meter_accuracy g)))]\<rparr>"
  by (simp add: log_phase_def emit_def Let_def)

lemmas op_eqs = log_phase_eq reset_meters_eq no_grad_engine_test_eq save_best_model_eq lr_step_eq

lemma on_end_epoch_sections:
  "on_end_epoch E epoch g = finish_epoch E epoch (save_best_model E (validate E epoch g))"
  by (simp add: on_end_epoch_def validate_def finish_epoch_def Let_def)

lemma to_csv_eq:
  "to_csv df path lab g =
     g\<lparr>files := (files g)(path \<mapsto> Statistics \<lparr>csv_header = lab # columns df, csv_lines = zip (index df) (rows df)\<rparr>),
       trace := trace g @ [To_csv path \<lparr>csv_header = lab # columns df, csv_lines = zip (index df) (rows df)\<rparr>]\<rparr>"
  by (simp add: to_csv_def emit_def Let_def)

lemma save_statistics_trace:
  "\<exists>t. final_trace (save_statistics epoch g) = trace g @ t \<and> list_all is_To_csv t \<and> length t \<le> 1"
  by (simp add: save_statistics_def final_trace_def to_csv_eq split: sum.splits)

lemma save_statistics_Inr:
  assumes "save_statistics epoch g = Inr h"
  shows "\<exists>c. h = g\<lparr>files := (files g)(statistics_path g \<mapsto> Statistics c),
                   trace := trace g @ [To_csv (statistics_path g) c]\<rparr>"
  using assms by (auto simp add: save_statistics_def to_csv_eq split: sum.splits)

lemma validate_fields:
  "weights (validate E epoch g) = weights g"
  "optimizer (validate E epoch g) = optimizer g"
  "scheduler (validate E epoch g) = scheduler g"
  "best_accuracy (validate E epoch g) = best_accuracy g"
  "files (validate E epoch g) = files g"
  "grad_enabled (validate E epoch g) = grad_enabled g"
  "DATA_TYPE (validate E epoch g) = DATA_TYPE g"
  "MODEL_TYPE (validate E epoch g) = MODEL_TYPE g"
  "device_ids (validate E epoch g) = device_ids g"
  "meter_loss (validate E epoch g) = eval_losses E (weights g) (val_loader E)"
  "meter_accuracy (validate E epoch g) = eval_outputs E (weights g) (val_loader E)"
  "meter_confusion (validate E epoch g) = eval_outputs E (weights g) (val_loader E)"
  by (simp_all add: validate_def op_eqs)

lemma finish_epoch_Inr:
  assumes "finish_epoch E epoch g = Inr h"
  shows "weights h = weights g" "best_accuracy h = best_accuracy g"
    "DATA_TYPE h = DATA_TYPE g" "MODEL_TYPE h = MODEL_TYPE g" "device_ids h = device_ids g"
    "grad_enabled h = grad_enabled g"
    "meter_loss h = eval_losses E (weights g) (test_loader E)"
    "meter_accuracy h = eval_outputs E (weights g) (test_loader E)"
  using save_statistics_Inr[OF assms[unfolded finish_epoch_def]]
  by (auto simp add: op_eqs)

lemma train_pass_start_eq:
  "train_pass E (on_start_epoch g) =
     g\<lparr>training := (if train_loader E = [] then training g else True),
       weights := fst (train_final E (weights g, optimizer g) (train_loader E)),
       optimizer := snd (train_final E (weights g, optimizer g) (train_loader E)),
       meter_accuracy := train_outputs E (weights g, optimizer g) (train_loader E),
       meter_confusion := train_outputs E (weights g, optimizer g) (train_loader E),
       meter_loss := train_losses E (weights g, optimizer g) (train_loader E),
       trace := trace g @ Reset_meters # Begin_pass Train #
                  concat (replicate (length (train_loader E))
                    [Forward True (grad_enabled g), Zero_grad, Backward, Optimizer_step])\<rparr>"
  by (simp add: train_pass_def on_start_epoch_def reset_meters_eq fold_train_batch emit_def)

lemma run_epoch_sections:
  "run_epoch E epoch g =
     finish_epoch E (epoch + 1)
       (save_best_model E (validate E (epoch + 1) (train_pass E (on_start_epoch g))))"
  by (simp add: run_epoch_def on_end_epoch_sections)

lemma save_best_model_best:
  "best_accuracy (save_best_model E g) =
     max (best_accuracy g) (fst (accuracy_value E (meter_accuracy g)))"
  by (simp add: save_best_model_eq)

lemma run_epoch_best:
  assumes "run_epoch E epoch g = Inr g'"
  shows "best_accuracy g' =
     max (best_accuracy g)
       (fst (accuracy_value E (eval_outputs E
          (fst (train_final E (weights g, optimizer g) (train_loader E))) (val_loader E))))"
  using finish_epoch_Inr(2)[OF assms[unfolded run_epoch_sections]]
  by (simp add: save_best_model_best validate_fields train_pass_start_eq)

declare engine_train.simps [simp del]

lemma engine_train_best_mono:
  "engine_train E maxepoch epoch g = Inr g' \<Longrightarrow> best_accuracy g \<le> best_accuracy g'"
proof (induction E maxepoch epoch g rule: engine_train.induct)
  case (1 E maxepoch epoch g)
  show ?case
  proof (cases "epoch < maxepoch")
    case False
    with "1.prems" show ?thesis by (simp add: engine_train.simps)
  next
    case True
    with "1.prems" obtain h where h: "run_epoch E epoch g = Inr h"
      and rest: "engine_train E maxepoch (epoch + 1) h = Inr g'"
      by (subst (asm) engine_train.simps) (auto split: sum.splits)
    have "best_accuracy g \<le> best_accuracy h" using run_epoch_best[OF h] by simp
    also have "\<dots> \<le> best_accuracy g'" using "1.IH"[OF True h rest] .
    finally show ?thesis .
  qed
qed

lemma engine_train_split:
  "epoch \<le> mid \<Longrightarrow> mid \<le> maxepoch \<Longrightarrow>
   engine_train E maxepoch epoch g =
     (case engine_train E mid epoch g of Inl e \<Rightarrow> Inl e | Inr h \<Rightarrow> engine_train E maxepoch mid h)"
proof (induction E mid epoch g rule: engine_train.induct)
  case (1 E mid epoch g)
  show ?case
  proof (cases "epoch < mid")
    case False
    with "1.prems" have "epoch = mid" by simp
    then show ?thesis by (simp add: engine_train.simps[of E mid mid])
  next
    case True
    with "1.prems" have lt: "epoch < maxepoch" by simp
    show ?thesis
    proof (cases "run_epoch E epoch g")
      case (Inl e)
      with True lt show ?thesis
        by (simp add: engine_train.simps[of E maxepoch epoch] engine_train.simps[of E mid epoch])
    next
      case (Inr h)
      with True lt "1.IH"[OF True Inr] "1.prems" show ?thesis
        by (simp add: engine_train.simps[of E maxepoch epoch] engine_train.simps[of E mid epoch])
    qed
  qed
qed

text \<open>
  Claim C3. The best-accuracy tracker starts at 0, and it never decreases: over the
  states that the training engine reaches after \<open>i\<close> and after \<open>j \<ge> i\<close> completed epochs
  of a run from the initial state, the tracker is non-negative and non-decreasing, and
  no single epoch, from any state, lowers it.
\<close>

theorem best_accuracy_monotone:
  "best_accuracy (initial_globals E op m) = 0
   \<and> (\<forall>i j gi gj. i \<le> j
         \<and> engine_train E i 0 (initial_globals E op m) = Inr gi
         \<and> engine_train E j 0 (initial_globals E op m) = Inr gj
        \<longrightarrow> 0 \<le> best_accuracy gi \<and> best_accuracy gi \<le> best_accuracy gj)
   \<and> (\<forall>epoch g g'. run_epoch E epoch g = Inr g' \<longrightarrow> best_accuracy g \<le> best_accuracy g')"
proof (intro conjI allI impI)
  show init: "best_accuracy (initial_globals E op m) = 0"
    by (simp add: initial_globals_def)
  fix i j gi gj
  assume a: "i \<le> j \<and> engine_train E i 0 (initial_globals E op m) = Inr gi
         \<and> engine_train E j 0 (initial_globals E op m) = Inr gj"
  show "0 \<le> best_accuracy gi"
    using engine_train_best_mono[of E i 0 "initial_globals E op m" gi] a init by simp
  show "best_accuracy gi \<le> best_accuracy gj"
  proof (cases "0 \<le> i")
    case True
    with a have "engine_train E j i gi = Inr gj"
      using engine_train_split[of 0 i j E "initial_globals E op m"] by simp
    then show ?thesis by (rule engine_train_best_mono)
  next
    case False
    with a have "gi = initial_globals E op m" by (simp add: engine_train.simps[of E i 0])
    with a show ?thesis using engine_train_best_mono[of E j 0 "initial_globals E op m" gj] by simp
  qed
next
  fix epoch g g'
  assume "run_epoch E epoch g = Inr g'"
  then show "best_accuracy g \<le> best_accuracy g'" using run_epoch_best by fastforce
qed

text \<open>
  Claim C2. The checkpoint decision of \<^verbatim>\<open>on_end_epoch\<close> is \<open>save_best_model\<close> applied to
  the state after validation. It writes the checkpoint (one \<open>Torch_save\<close>, the file
  replaced) and sets the tracker to the validation top1 accuracy if that accuracy is
  strictly greater than the tracker; otherwise it changes nothing. After the decision,
  whatever it was, the rest of the epoch and any number of further epochs lead to a
  state in which a validation that measures the identical accuracy writes nothing.
\<close>

theorem checkpoint_iff_strictly_better:
  "(best_accuracy d < fst (accuracy_value E (meter_accuracy d)) \<longrightarrow>
      save_best_model E d =
        d\<lparr>best_accuracy := fst (accuracy_value E (meter_accuracy d)),
          files := (files d)(checkpoint_path d \<mapsto> Checkpoint (weights d)),
          trace := trace d @ [Torch_save (checkpoint_path d) (weights d)]\<rparr>)
   \<and> (\<not> best_accuracy d < fst (accuracy_value E (meter_accuracy d)) \<longrightarrow> save_best_model E d = d)
   \<and> on_end_epoch E epoch g = finish_epoch E epoch (save_best_model E (validate E epoch g))
   \<and> (\<forall>h h' maxepoch epoch'.
          finish_epoch E epoch (save_best_model E d) = Inr h
          \<and> engine_train E maxepoch epoch h = Inr h'
          \<and> fst (accuracy_value E (meter_accuracy (validate E epoch' (train_pass E (on_start_epoch h')))))
              = fst (accuracy_value E (meter_accuracy d))
        \<longrightarrow> save_best_model E (validate E epoch' (train_pass E (on_start_epoch h')))
              = validate E epoch' (train_pass E (on_start_epoch h')))"
proof (intro conjI allI impI)
  show "on_end_epoch E epoch g = finish_epoch E epoch (save_best_model E (validate E epoch g))"
    by (rule on_end_epoch_sections)
next
  fix h h' maxepoch epoch'
  let ?d' = "validate E epoch' (train_pass E (on_start_epoch h'))"
  assume a: "finish_epoch E epoch (save_best_model E d) = Inr h
          \<and> engine_train E maxepoch epoch h = Inr h'
          \<and> fst (accuracy_value E (meter_accuracy ?d')) = fst (accuracy_value E (meter_accuracy d))"
  have "fst (accuracy_value E (meter_accuracy d)) \<le> best_accuracy (save_best_model E d)"
    by (simp add: save_best_model_best)
  also have "\<dots> = best_accuracy h" using finish_epoch_Inr(2)[OF conjunct1[OF a]] by simp
  also have "\<dots> \<le> best_accuracy h'" using a engine_train_best_mono by blast
  also have "\<dots> = best_accuracy ?d'" by (simp add: validate_fields train_pass_start_eq)
  finally have "\<not> best_accuracy ?d' < fst (accuracy_value E (meter_accuracy ?d'))" using a by simp
  then show "save_best_model E ?d' = ?d'" by (simp add: save_best_model_eq)
qed (simp_all add: save_best_model_eq)

lemma log_phase_trace:
  "trace (log_phase E sp epoch g) =
     trace g @ log_events E sp epoch (meter_loss g) (meter_accuracy g) (meter_confusion g)"
  by (simp add: log_phase_eq log_events_def)

lemma log_events_kinds:
  assumes "e \<in> set (log_events E sp epoch ml ma mc)"
  shows "\<not> is_Scheduler_step e" "\<not> is_Torch_save e" "\<not> is_Begin_pass e" "\<not> is_Forward e"
    "\<not> is_To_csv e" "e \<noteq> Zero_grad" "e \<noteq> Backward" "e \<noteq> Optimizer_step" "e \<noteq> Reset_meters"
  using assms by (auto simp add: log_events_def)

lemma log_phase_fields:
  "meter_loss (log_phase E sp epoch g) = meter_loss g"
  "meter_accuracy (log_phase E sp epoch g) = meter_accuracy g"
  "meter_confusion (log_phase E sp epoch g) = meter_confusion g"
  "weights (log_phase E sp epoch g) = weights g"
  "optimizer (log_phase E sp epoch g) = optimizer g"
  "scheduler (log_phase E sp epoch g) = scheduler g"
  "best_accuracy (log_phase E sp epoch g) = best_accuracy g"
  "files (log_phase E sp epoch g) = files g"
  "grad_enabled (log_phase E sp epoch g) = grad_enabled g"
  "training (log_phase E sp epoch g) = training g"
  "DATA_TYPE (log_phase E sp epoch g) = DATA_TYPE g"
  "MODEL_TYPE (log_phase E sp epoch g) = MODEL_TYPE g"
  "device_ids (log_phase E sp epoch g) = device_ids g"
  by (simp_all add: log_phase_eq)

lemma reset_meters_fields:
  "meter_loss (reset_meters g) = []"
  "meter_accuracy (reset_meters g) = []"
  "meter_confusion (reset_meters g) = []"
  "weights (reset_meters g) = weights g"
  "optimizer (reset_meters g) = optimizer g"
  "scheduler (reset_meters g) = scheduler g"
  "best_accuracy (reset_meters g) = best_accuracy g"
  "files (reset_meters g) = files g"
  "results (reset_meters g) = results g"
  "grad_enabled (reset_meters g) = grad_enabled g"
  "training (reset_meters g) = training g"
  "DATA_TYPE (reset_meters g) = DATA_TYPE g"
  "MODEL_TYPE (reset_meters g) = MODEL_TYPE g"
  "device_ids (reset_meters g) = device_ids g"
  "trace (reset_meters g) = trace g @ [Reset_meters]"
  by (simp_all add: reset_meters_eq)

lemma eval_pass_fields:
  "meter_loss (no_grad (engine_test E sp ld) g) = meter_loss g @ eval_losses E (weights g) ld"
  "meter_accuracy (no_grad (engine_test E sp ld) g) = meter_accuracy g @ eval_outputs E (weights g) ld"
  "meter_confusion (no_grad (engine_test E sp ld) g) = meter_confusion g @ eval_outputs E (weights g) ld"
  "weights (no_grad (engine_test E sp ld) g) = weights g"
  "optimizer (no_grad (engine_test E sp ld) g) = optimizer g"
  "scheduler (no_grad (engine_test E sp ld) g) = scheduler g"
  "best_accuracy (no_grad (engine_test E sp ld) g) = best_accuracy g"
  "files (no_grad (engine_test E sp ld) g) = files g"
  "results (no_grad (engine_test E sp ld) g) = results g"
  "grad_enabled (no_grad (engine_test E sp ld) g) = grad_enabled g"
  "DATA_TYPE (no_grad (engine_test E sp ld) g) = DATA_TYPE g"
  "MODEL_TYPE (no_grad (engine_test E sp ld) g) = MODEL_TYPE g"
  "device_ids (no_grad (engine_test E sp ld) g) = device_ids g"
  "trace (no_grad (engine_test E sp ld) g) =
     trace g @ Begin_pass sp # replicate (length ld) (Forward False False)"
  by (simp_all add: no_grad_engine_test_eq)

lemma lr_step_fields:
  "meter_loss (lr_step E g) = meter_loss g"
  "meter_accuracy (lr_step E g) = meter_accuracy g"
  "meter_confusion (lr_step E g) = meter_confusion g"
  "weights (lr_step E g) = weights g"
  "best_accuracy (lr_step E g) = best_accuracy g"
  "files (lr_step E g) = files g"
  "results (lr_step E g) = results g"
  "grad_enabled (lr_step E g) = grad_enabled g"
  "training (lr_step E g) = training g"
  "DATA_TYPE (lr_step E g) = DATA_TYPE g"
  "MODEL_TYPE (lr_step E g) = MODEL_TYPE g"
  "device_ids (lr_step E g) = device_ids g"
  "trace (lr_step E g) = trace g @ [Scheduler_step (fst (loss_value E (meter_loss g)))]"
  by (simp_all add: lr_step_eq)

lemma save_best_model_fields:
  "meter_loss (save_best_model E g) = meter_loss g"
  "meter_accuracy (save_best_model E g) = meter_accuracy g"
  "meter_confusion (save_best_model E g) = meter_confusion g"
  "weights (save_best_model E g) = weights g"
  "optimizer (save_best_model E g) = optimizer g"
  "scheduler (save_best_model E g) = scheduler g"
  "results (save_best_model E g) = results g"
  "grad_enabled (save_best_model E g) = grad_enabled g"
  "training (save_best_model E g) = training g"
  "DATA_TYPE (save_best_model E g) = DATA_TYPE g"
  "MODEL_TYPE (save_best_model E g) = MODEL_TYPE g"
  "device_ids (save_best_model E g) = device_ids g"
  by (simp_all add: save_best_model_eq)

lemmas section_fields =
  log_phase_fields reset_meters_fields eval_pass_fields lr_step_fields save_best_model_fields

lemma validate_trace:
  "trace (validate E epoch g) =
     trace g @ log_events E Train epoch (meter_loss g) (meter_accuracy g) (meter_confusion g)
       @ Reset_meters # Begin_pass Val # replicate (length (val_loader E)) (Forward False False)
       @ log_events E Val epoch (eval_losses E (weights g) (val_loader E))
           (eval_outputs E (weights g) (val_loader E)) (eval_outputs E (weights g) (val_loader E))"
  by (simp add: validate_def log_phase_trace section_fields)

lemma save_best_model_trace:
  "trace (save_best_model E g) =
     trace g @ (if best_accuracy g < fst (accuracy_value E (meter_accuracy g))
                then [Torch_save (checkpoint_path g) (weights g)] else [])"
  by (simp add: save_best_model_eq)

lemma finish_epoch_trace:
  "\<exists>t. final_trace (finish_epoch E epoch g) =
     trace g @ Scheduler_step (fst (loss_value E (meter_loss g))) # Reset_meters # Begin_pass Test
       # replicate (length (test_loader E)) (Forward False False)
       @ log_events E Test epoch (eval_losses E (weights g) (test_loader E))
           (eval_outputs E (weights g) (test_loader E)) (eval_outputs E (weights g) (test_loader E))
       @ t
     \<and> list_all is_To_csv t"
proof -
  let ?g = "log_phase E Test epoch
         (no_grad (engine_test E Test (test_loader E)) (reset_meters (lr_step E g)))"
  obtain t where t: "final_trace (save_statistics epoch ?g) = trace ?g @ t" "list_all is_To_csv t"
    using save_statistics_trace by blast
  have "trace ?g = trace g @ Scheduler_step (fst (loss_value E (meter_loss g))) # Reset_meters # Begin_pass Test
       # replicate (length (test_loader E)) (Forward False False)
       @ log_events E Test epoch (eval_losses E (weights g) (test_loader E))
           (eval_outputs E (weights g) (test_loader E)) (eval_outputs E (weights g) (test_loader E))"
    by (simp add: log_phase_trace section_fields)
  with t show ?thesis by (simp add: finish_epoch_def)
qed

lemma train_pass_fields:
  "weights (train_pass E (on_start_epoch g)) = fst (train_final E (weights g, optimizer g) (train_loader E))"
  "optimizer (train_pass E (on_start_epoch g)) = snd (train_final E (weights g, optimizer g) (train_loader E))"
  "meter_loss (train_pass E (on_start_epoch g)) = train_losses E (weights g, optimizer g) (train_loader E)"
  "meter_accuracy (train_pass E (on_start_epoch g)) = train_outputs E (weights g, optimizer g) (train_loader E)"
  "meter_confusion (train_pass E (on_start_epoch g)) = train_outputs E (weights g, optimizer g) (train_loader E)"
  "scheduler (train_pass E (on_start_epoch g)) = scheduler g"
  "best_accuracy (train_pass E (on_start_epoch g)) = best_accuracy g"
  "files (train_pass E (on_start_epoch g)) = files g"
  "results (train_pass E (on_start_epoch g)) = results g"
  "grad_enabled (train_pass E (on_start_epoch g)) = grad_enabled g"
  "DATA_TYPE (train_pass E (on_start_epoch g)) = DATA_TYPE g"
  "MODEL_TYPE (train_pass E (on_start_epoch g)) = MODEL_TYPE g"
  "device_ids (train_pass E (on_start_epoch g)) = device_ids g"
  "trace (train_pass E (on_start_epoch g)) =
     trace g @ Reset_meters # Begin_pass Train #
       concat (replicate (length (train_loader E))
         [Forward True (grad_enabled g), Zero_grad, Backward, Optimizer_step])"
  by (simp_all add: train_pass_start_eq)

lemma in_concat_replicate: "e \<in> set (concat (replicate n xs)) \<Longrightarrow> e \<in> set xs"
  by (induction n) auto

text \<open>
  Claim C1. The events of one epoch, from any state: a part \<open>pre\<close> (training pass,
  validation pass and their logs) with no scheduler step, no checkpoint write and no
  start of the test pass; then the checkpoint write, if the decision is to write; then
  the one \<open>Scheduler_step\<close>, whose argument is the loss meter's value over the losses
  of the validation batches; then the reset of the meters and the start of the test pass,
  followed by a part \<open>post\<close> with no scheduler step and no checkpoint write.
\<close>

theorem scheduler_step_once_per_epoch:
  "\<exists>pre post.
     final_trace (run_epoch E epoch g) =
       trace g @ pre
         @ (if best_accuracy g < val_top1_of_epoch E g
            then [Torch_save (checkpoint_path g) (trained_weights E g)] else [])
         @ Scheduler_step (val_loss_of_epoch E g) # Reset_meters # Begin_pass Test # post
     \<and> \<not> list_ex is_Scheduler_step pre \<and> \<not> list_ex is_Scheduler_step post
     \<and> \<not> list_ex is_Torch_save pre \<and> \<not> list_ex is_Torch_save post
     \<and> Begin_pass Val \<in> set pre \<and> Begin_pass Test \<notin> set pre \<and> \<not> list_ex is_Begin_pass post"
proof -
  let ?g1 = "train_pass E (on_start_epoch g)"
  let ?d = "validate E (epoch + 1) ?g1"
  let ?s = "save_best_model E ?d"
  let ?w = "trained_weights E g"
  obtain t where t: "final_trace (finish_epoch E (epoch + 1) ?s) =
       trace ?s @ Scheduler_step (fst (loss_value E (meter_loss ?s))) # Reset_meters # Begin_pass Test
       # replicate (length (test_loader E)) (Forward False False)
       @ log_events E Test (epoch + 1) (eval_losses E (weights ?s) (test_loader E))
           (eval_outputs E (weights ?s) (test_loader E)) (eval_outputs E (weights ?s) (test_loader E))
       @ t" and tcsv: "list_all is_To_csv t"
    using finish_epoch_trace by blast
  define pre where "pre =
     Reset_meters # Begin_pass Train #
       concat (replicate (length (train_loader E))
         [Forward True (grad_enabled g), Zero_grad, Backward, Optimizer_step])
       @ log_events E Train (epoch + 1) (meter_loss ?g1) (meter_accuracy ?g1) (meter_confusion ?g1)
       @ Reset_meters # Begin_pass Val # replicate (length (val_loader E)) (Forward False False)
       @ log_events E Val (epoch + 1) (eval_losses E ?w (val_loader E))
           (eval_outputs E ?w (val_loader E)) (eval_outputs E ?w (val_loader E))"
  define post where "post =
     replicate (length (test_loader E)) (Forward False False)
       @ log_events E Test (epoch + 1) (eval_losses E ?w (test_loader E))
           (eval_outputs E ?w (test_loader E)) (eval_outputs E ?w (test_loader E))
       @ t"
  have eq: "final_trace (run_epoch E epoch g) =
       trace g @ pre
         @ (if best_accuracy g < val_top1_of_epoch E g
            then [Torch_save (checkpoint_path g) (trained_weights E g)] else [])
         @ Scheduler_step (val_loss_of_epoch E g) # Reset_meters # Begin_pass Test # post"
    unfolding run_epoch_sections t
    by (simp add: save_best_model_trace validate_trace validate_fields train_pass_fields
        save_best_model_fields pre_def post_def trained_weights_def val_loss_of_epoch_def
        val_top1_of_epoch_def checkpoint_path_def)
  have p1: "\<not> list_ex is_Scheduler_step pre" "\<not> list_ex is_Torch_save pre" "Begin_pass Test \<notin> set pre"
    by (auto simp add: pre_def list_ex_iff dest: log_events_kinds in_concat_replicate)
  have p2: "Begin_pass Val \<in> set pre" by (simp add: pre_def)
  have p3: "\<not> list_ex is_Scheduler_step post" "\<not> list_ex is_Torch_save post" "\<not> list_ex is_Begin_pass post"
    using tcsv by (auto simp add: post_def list_ex_iff list_all_iff dest: log_events_kinds)
  from eq p1 p2 p3 show ?thesis by blast
qed

lemmas demo_defs = demo_env_def demo_opt_def demo_globals_def initial_globals_def empty_results_def make_model_def

text \<open>The first epoch of the concrete run: the checkpoint is written, then the step is taken with loss 1.\<close>

theorem scheduler_step_once_per_epoch_witness:
  "\<exists>pre post.
     final_trace (run_epoch demo_env 0 demo_globals) =
       trace demo_globals @ pre @ [Torch_save ''epochs/ucf101_c3d.pth'' 1]
         @ Scheduler_step 1 # Reset_meters # Begin_pass Test # post
     \<and> \<not> list_ex is_Scheduler_step pre \<and> \<not> list_ex is_Scheduler_step post
     \<and> \<not> list_ex is_Torch_save pre \<and> \<not> list_ex is_Torch_save post
     \<and> Begin_pass Val \<in> set pre \<and> Begin_pass Test \<notin> set pre \<and> \<not> list_ex is_Begin_pass post"
proof -
  have v: "val_top1_of_epoch demo_env demo_globals = 1" "val_loss_of_epoch demo_env demo_globals = 1"
    "trained_weights demo_env demo_globals = 1" "best_accuracy demo_globals = 0"
    "checkpoint_path demo_globals = ''epochs/ucf101_c3d.pth''"
    by (simp_all add: val_top1_of_epoch_def val_loss_of_epoch_def trained_weights_def
        eval_outputs_def eval_losses_def checkpoint_path_def demo_defs)
  show ?thesis
    using scheduler_step_once_per_epoch[of demo_env 0 demo_globals] unfolding v by simp
qed

lemmas eval_eqs =
  run_epoch_sections finish_epoch_def validate_def op_eqs train_pass_start_eq
  save_statistics_def DataFrame_def to_csv_eq statistics_path_def checkpoint_path_def
  eval_outputs_def eval_losses_def train_losses_def
  split_name_def confusion_title_def results_append_def demo_defs

text \<open>The concrete run: the tracker is 0 before the first epoch and not lower after it.\<close>

theorem best_accuracy_monotone_witness:
  "\<exists>gi gj. engine_train demo_env 0 0 (initial_globals demo_env demo_opt 0) = Inr gi
     \<and> engine_train demo_env 1 0 (initial_globals demo_env demo_opt 0) = Inr gj
     \<and> best_accuracy gi = 0 \<and> best_accuracy gi \<le> best_accuracy gj"
proof -
  have r0: "engine_train demo_env 0 0 (initial_globals demo_env demo_opt 0) = Inr (initial_globals demo_env demo_opt 0)"
    by (simp add: engine_train.simps)
  obtain gj where r1: "engine_train demo_env 1 0 (initial_globals demo_env demo_opt 0) = Inr gj"
    by (simp add: engine_train.simps eval_eqs upto.simps)
  note inst = best_accuracy_monotone[of demo_env demo_opt 0]
  from inst have b0: "best_accuracy (initial_globals demo_env demo_opt 0) = 0" by blast
  from inst r0 r1
  have "best_accuracy (initial_globals demo_env demo_opt 0) \<le> best_accuracy gj"
    by (meson zero_le_one)
  with r0 r1 b0 show ?thesis by blast
qed

text \<open>
  The concrete run: the first validation measures 1 against a tracker of 0 and the
  checkpoint is written; the second epoch measures 1 again and writes nothing.
\<close>

theorem checkpoint_iff_strictly_better_witness:
  "best_accuracy demo_d < fst (accuracy_value demo_env (meter_accuracy demo_d))
   \<and> trace (save_best_model demo_env demo_d) = trace demo_d @ [Torch_save ''epochs/ucf101_c3d.pth'' 1]
   \<and> best_accuracy (save_best_model demo_env demo_d) = 1
   \<and> (\<exists>h. finish_epoch demo_env 1 (save_best_model demo_env demo_d) = Inr h
         \<and> engine_train demo_env 1 1 h = Inr h
         \<and> fst (accuracy_value demo_env (meter_accuracy (validate demo_env 2 (train_pass demo_env (on_start_epoch h))))) = 1
         \<and> save_best_model demo_env (validate demo_env 2 (train_pass demo_env (on_start_epoch h)))
              = validate demo_env 2 (train_pass demo_env (on_start_epoch h)))"
proof -
  note inst = checkpoint_iff_strictly_better[of demo_d demo_env 1 demo_globals]
  have d: "best_accuracy demo_d = 0" "meter_accuracy demo_d = [(1, 1), (5, 6)]" "weights demo_d = 1"
    "checkpoint_path demo_d = ''epochs/ucf101_c3d.pth''"
    by (simp_all add: demo_d_def validate_fields train_pass_fields eval_outputs_def
        checkpoint_path_def demo_defs)
  have acc': "fst (accuracy_value demo_env [(1, 1), (5, 6)]) = 1"
    by (simp add: demo_env_def)
  have acc: "fst (accuracy_value demo_env (meter_accuracy demo_d)) = 1"
    by (simp add: d acc')
  have lt: "best_accuracy demo_d < fst (accuracy_value demo_env (meter_accuracy demo_d))"
    by (simp add: acc' d)
  from inst lt have sv: "save_best_model demo_env demo_d =
        demo_d\<lparr>best_accuracy := fst (accuracy_value demo_env (meter_accuracy demo_d)),
          files := (files demo_d)(checkpoint_path demo_d \<mapsto> Checkpoint (weights demo_d)),
          trace := trace demo_d @ [Torch_save (checkpoint_path demo_d) (weights demo_d)]\<rparr>"
    by blast
  have tr: "trace (save_best_model demo_env demo_d) = trace demo_d @ [Torch_save ''epochs/ucf101_c3d.pth'' 1]"
    and bs: "best_accuracy (save_best_model demo_env demo_d) = 1"
    by (simp_all add: sv d acc')
  obtain h where h: "finish_epoch demo_env 1 (save_best_model demo_env demo_d) = Inr h"
    by (simp add: demo_d_def eval_eqs upto.simps)
  have e: "engine_train demo_env 1 1 h = Inr h" by (simp add: engine_train.simps)
  have wh: "weights h = 1" using finish_epoch_Inr(1)[OF h] by (simp add: save_best_model_fields d)
  have a2: "fst (accuracy_value demo_env (meter_accuracy (validate demo_env 2 (train_pass demo_env (on_start_epoch h))))) = 1"
    by (simp add: validate_fields train_pass_fields wh eval_outputs_def demo_env_def)
  from inst have "finish_epoch demo_env 1 (save_best_model demo_env demo_d) = Inr h
          \<and> engine_train demo_env 1 1 h = Inr h
          \<and> fst (accuracy_value demo_env (meter_accuracy (validate demo_env 2 (train_pass demo_env (on_start_epoch h)))))
              = fst (accuracy_value demo_env (meter_accuracy demo_d))
        \<longrightarrow> save_best_model demo_env (validate demo_env 2 (train_pass demo_env (on_start_epoch h)))
              = validate demo_env 2 (train_pass demo_env (on_start_epoch h))"
    by blast
  with h e a2 acc
  have "save_best_model demo_env (validate demo_env 2 (train_pass demo_env (on_start_epoch h)))
              = validate demo_env 2 (train_pass demo_env (on_start_epoch h))"
    by simp
  with lt tr bs h e a2 show ?thesis by blast
qed

lemma filter_Forward_log_events: "filter is_Forward (log_events E sp epoch ml ma mc) = []"
  by (simp add: log_events_def)

lemma filter_Forward_csv: "list_all is_To_csv t \<Longrightarrow> filter is_Forward t = []"
  by (induction t) (auto elim: event.collapse)

text \<open>
  Claim C6. An evaluation pass under \<^verbatim>\<open>torch.no_grad()\<close> only sets the mode flag, feeds
  the meters and appends, after the start of the pass, one forward call per batch with
  the training flag false and gradients disabled; weights, optimizer and scheduler keep
  their values. In \<^verbatim>\<open>on_end_epoch\<close>, which runs the validation and the test pass, every
  forward call is of that kind, there is one per validation and test batch, and no
  zero-grad, backward or optimizer step occurs; when it returns, the weights are those
  it started with and the gradient flag is restored.
\<close>

theorem evaluation_passes_take_no_gradient_step:
  "no_grad (engine_test E sp ld) g =
     g\<lparr>training := (if ld = [] then training g else False),
       meter_accuracy := meter_accuracy g @ eval_outputs E (weights g) ld,
       meter_confusion := meter_confusion g @ eval_outputs E (weights g) ld,
       meter_loss := meter_loss g @ eval_losses E (weights g) ld,
       trace := trace g @ Begin_pass sp # replicate (length ld) (Forward False False)\<rparr>
   \<and> (\<exists>t. final_trace (on_end_epoch E epoch g) = trace g @ t
        \<and> filter is_Forward t
            = replicate (length (val_loader E) + length (test_loader E)) (Forward False False)
        \<and> Zero_grad \<notin> set t \<and> Backward \<notin> set t \<and> Optimizer_step \<notin> set t)
   \<and> (\<forall>g'. on_end_epoch E epoch g = Inr g' \<longrightarrow>
         weights g' = weights g \<and> grad_enabled g' = grad_enabled g)"
proof (intro conjI allI impI)
  show "no_grad (engine_test E sp ld) g =
     g\<lparr>training := (if ld = [] then training g else False),
       meter_accuracy := meter_accuracy g @ eval_outputs E (weights g) ld,
       meter_confusion := meter_confusion g @ eval_outputs E (weights g) ld,
       meter_loss := meter_loss g @ eval_losses E (weights g) ld,
       trace := trace g @ Begin_pass sp # replicate (length ld) (Forward False False)\<rparr>"
    by (rule no_grad_engine_test_eq)
next
  let ?s = "save_best_model E (validate E epoch g)"
  obtain t where t: "final_trace (finish_epoch E epoch ?s) =
     trace ?s @ Scheduler_step (fst (loss_value E (meter_loss ?s))) # Reset_meters # Begin_pass Test
       # replicate (length (test_loader E)) (Forward False False)
       @ log_events E Test epoch (eval_losses E (weights ?s) (test_loader E))
           (eval_outputs E (weights ?s) (test_loader E)) (eval_outputs E (weights ?s) (test_loader E))
       @ t" and tcsv: "list_all is_To_csv t"
    using finish_epoch_trace by blast
  define u where "u =
     log_events E Train epoch (meter_loss g) (meter_accuracy g) (meter_confusion g)
       @ Reset_meters # Begin_pass Val # replicate (length (val_loader E)) (Forward False False)
       @ log_events E Val epoch (eval_losses E (weights g) (val_loader E))
           (eval_outputs E (weights g) (val_loader E)) (eval_outputs E (weights g) (val_loader E))
       @ (if best_accuracy (validate E epoch g) < fst (accuracy_value E (meter_accuracy (validate E epoch g)))
          then [Torch_save (checkpoint_path (validate E epoch g)) (weights (validate E epoch g))] else [])
       @ Scheduler_step (fst (loss_value E (meter_loss ?s))) # Reset_meters # Begin_pass Test
       # replicate (length (test_loader E)) (Forward False False)
       @ log_events E Test epoch (eval_losses E (weights ?s) (test_loader E))
           (eval_outputs E (weights ?s) (test_loader E)) (eval_outputs E (weights ?s) (test_loader E))
       @ t"
  have eq: "final_trace (on_end_epoch E epoch g) = trace g @ u"
    unfolding on_end_epoch_sections t
    by (simp add: u_def save_best_model_trace validate_trace)
  have f: "filter is_Forward u
            = replicate (length (val_loader E) + length (test_loader E)) (Forward False False)"
    by (simp add: u_def filter_Forward_log_events filter_Forward_csv[OF tcsv] replicate_add)
  have n: "Zero_grad \<notin> set u" "Backward \<notin> set u" "Optimizer_step \<notin> set u"
    using tcsv by (auto simp add: u_def list_all_iff dest: log_events_kinds)
  from eq f n
  show "\<exists>t. final_trace (on_end_epoch E epoch g) = trace g @ t
        \<and> filter is_Forward t
            = replicate (length (val_loader E) + length (test_loader E)) (Forward False False)
        \<and> Zero_grad \<notin> set t \<and> Backward \<notin> set t \<and> Optimizer_step \<notin> set t"
    by blast
next
  fix g'
  assume a: "on_end_epoch E epoch g = Inr g'"
  note r = finish_epoch_Inr[OF a[unfolded on_end_epoch_sections]]
  show "weights g' = weights g" using r(1) by (simp add: save_best_model_fields validate_fields)
  show "grad_enabled g' = grad_enabled g" using r(6) by (simp add: save_best_model_fields validate_fields)
qed




text \<open>The concrete run: two validation batches and one test batch give three such forward calls.\<close>

theorem evaluation_passes_take_no_gradient_step_witness:
  "(\<exists>t. final_trace (on_end_epoch demo_env 1 demo_globals) = trace demo_globals @ t
        \<and> filter is_Forward t = [Forward False False, Forward False False, Forward False False]
        \<and> Zero_grad \<notin> set t \<and> Backward \<notin> set t \<and> Optimizer_step \<notin> set t)
   \<and> (\<exists>g'. on_end_epoch demo_env 1 demo_globals = Inr g'
         \<and> weights g' = weights demo_globals \<and> grad_enabled g' = grad_enabled demo_globals)"
proof -
  note inst = evaluation_passes_take_no_gradient_step[of demo_env Val "[]" demo_globals 1]
  have len: "replicate (length (val_loader demo_env) + length (test_loader demo_env)) (Forward False False)
      = [Forward False False, Forward False False, Forward False False :: int event]"
    by (simp add: demo_env_def numeral_3_eq_3)
  obtain g' where g': "on_end_epoch demo_env 1 demo_globals = Inr g'"
    by (simp add: on_end_epoch_sections eval_eqs upto.simps)
  from inst g' have "weights g' = weights demo_globals \<and> grad_enabled g' = grad_enabled demo_globals"
    by blast
  with inst g' show ?thesis unfolding len by blast
qed

lemma filter_pass_train_batches:
  "filter (\<lambda>e. e = Reset_meters \<or> is_Begin_pass e)
     (concat (replicate n [Forward b c, Zero_grad, Backward, Optimizer_step])) = []"
  by (induction n) simp_all

lemma filter_pass_log_events:
  "filter (\<lambda>e. e = Reset_meters \<or> is_Begin_pass e) (log_events E sp epoch ml ma mc) = []"
  by (simp add: log_events_def)

lemma filter_pass_csv:
  "list_all is_To_csv t \<Longrightarrow> filter (\<lambda>e. e = Reset_meters \<or> is_Begin_pass e) t = []"
  by (induction t) auto

lemma run_epoch_trace:
  "\<exists>t. final_trace (run_epoch E epoch g) =
       trace g @ Reset_meters # Begin_pass Train #
         concat (replicate (length (train_loader E))
           [Forward True (grad_enabled g), Zero_grad, Backward, Optimizer_step])
         @ log_events E Train (epoch + 1) (train_losses E (weights g, optimizer g) (train_loader E))
             (train_outputs E (weights g, optimizer g) (train_loader E))
             (train_outputs E (weights g, optimizer g) (train_loader E))
         @ Reset_meters # Begin_pass Val # replicate (length (val_loader E)) (Forward False False)
         @ log_events E Val (epoch + 1) (eval_losses E (trained_weights E g) (val_loader E))
             (eval_outputs E (trained_weights E g) (val_loader E))
             (eval_outputs E (trained_weights E g) (val_loader E))
         @ (if best_accuracy g < val_top1_of_epoch E g
            then [Torch_save (checkpoint_path g) (trained_weights E g)] else [])
         @ Scheduler_step (val_loss_of_epoch E g) # Reset_meters # Begin_pass Test
         # replicate (length (test_loader E)) (Forward False False)
         @ log_events E Test (epoch + 1) (eval_losses E (trained_weights E g) (test_loader E))
             (eval_outputs E (trained_weights E g) (test_loader E))
             (eval_outputs E (trained_weights E g) (test_loader E))
         @ t
     \<and> list_all is_To_csv t"
proof -
  let ?g1 = "train_pass E (on_start_epoch g)"
  let ?s = "save_best_model E (validate E (epoch + 1) ?g1)"
  obtain t where t: "final_trace (finish_epoch E (epoch + 1) ?s) =
       trace ?s @ Scheduler_step (fst (loss_value E (meter_loss ?s))) # Reset_meters # Begin_pass Test
       # replicate (length (test_loader E)) (Forward False False)
       @ log_events E Test (epoch + 1) (eval_losses E (weights ?s) (test_loader E))
           (eval_outputs E (weights ?s) (test_loader E)) (eval_outputs E (weights ?s) (test_loader E))
       @ t" and tcsv: "list_all is_To_csv t"
    using finish_epoch_trace by blast
  have "final_trace (run_epoch E epoch g) =
       trace g @ Reset_meters # Begin_pass Train #
         concat (replicate (length (train_loader E))
           [Forward True (grad_enabled g), Zero_grad, Backward, Optimizer_step])
         @ log_events E Train (epoch + 1) (train_losses E (weights g, optimizer g) (train_loader E))
             (train_outputs E (weights g, optimizer g) (train_loader E))
             (train_outputs E (weights g, optimizer g) (train_loader E))
         @ Reset_meters # Begin_pass Val # replicate (length (val_loader E)) (Forward False False)
         @ log_events E Val (epoch + 1) (eval_losses E (trained_weights E g) (val_loader E))
             (eval_outputs E (trained_weights E g) (val_loader E))
             (eval_outputs E (trained_weights E g) (val_loader E))
         @ (if best_accuracy g < val_top1_of_epoch E g
            then [Torch_save (checkpoint_path g) (trained_weights E g)] else [])
         @ Scheduler_step (val_loss_of_epoch E g) # Reset_meters # Begin_pass Test
         # replicate (length (test_loader E)) (Forward False False)
         @ log_events E Test (epoch + 1) (eval_losses E (trained_weights E g) (test_loader E))
             (eval_outputs E (trained_weights E g) (test_loader E))
             (eval_outputs E (trained_weights E g) (test_loader E))
         @ t"
    unfolding run_epoch_sections t
    by (simp add: save_best_model_trace validate_trace validate_fields train_pass_fields
        save_best_model_fields trained_weights_def val_loss_of_epoch_def
        val_top1_of_epoch_def checkpoint_path_def)
  with tcsv show ?thesis by blast
qed

lemma run_epoch_forgets_meters:
  "run_epoch E epoch (g\<lparr>meter_loss := ml, meter_accuracy := ma, meter_confusion := mc\<rparr>)
     = run_epoch E epoch g"
proof -
  have "train_pass E (on_start_epoch (g\<lparr>meter_loss := ml, meter_accuracy := ma, meter_confusion := mc\<rparr>))
      = train_pass E (on_start_epoch g)"
    by (simp add: train_pass_start_eq)
  then show ?thesis by (simp add: run_epoch_def)
qed

lemma run_epoch_final_meters:
  assumes "run_epoch E epoch g = Inr g'"
  shows "meter_loss g' = eval_losses E (trained_weights E g) (test_loader E)"
    "meter_accuracy g' = eval_outputs E (trained_weights E g) (test_loader E)"
    "meter_confusion g' = eval_outputs E (trained_weights E g) (test_loader E)"
  using save_statistics_Inr[OF assms[unfolded run_epoch_sections finish_epoch_def]]
  by (auto simp add: section_fields validate_fields train_pass_fields trained_weights_def)


text \<open>
  Claim C4. The events of one epoch, from any state, in full: each of the three passes
  (train, val, test) begins immediately after a reset of the three meters, and these
  are the only resets and the only passes; the values logged at the end of a phase
  (\<open>log_events\<close>) are the meters' values over the losses and outputs of the batches of
  that phase alone. The result of the epoch does not depend on what the meters held
  when it began, and when it returns the meters hold the test phase's batches only.
\<close>

theorem meters_reset_before_each_phase:
  "(\<exists>t. final_trace (run_epoch E epoch g) =
       trace g @ Reset_meters # Begin_pass Train #
         concat (replicate (length (train_loader E))
           [Forward True (grad_enabled g), Zero_grad, Backward, Optimizer_step])
         @ log_events E Train (epoch + 1) (train_losses E (weights g, optimizer g) (train_loader E))
             (train_outputs E (weights g, optimizer g) (train_loader E))
             (train_outputs E (weights g, optimizer g) (train_loader E))
         @ Reset_meters # Begin_pass Val # replicate (length (val_loader E)) (Forward False False)
         @ log_events E Val (epoch + 1) (eval_losses E (trained_weights E g) (val_loader E))
             (eval_outputs E (trained_weights E g) (val_loader E))
             (eval_outputs E (trained_weights E g) (val_loader E))
         @ (if best_accuracy g < val_top1_of_epoch E g
            then [Torch_save (checkpoint_path g) (trained_weights E g)] else [])
         @ Scheduler_step (val_loss_of_epoch E g) # Reset_meters # Begin_pass Test
         # replicate (length (test_loader E)) (Forward False False)
         @ log_events E Test (epoch + 1) (eval_losses E (trained_weights E g) (test_loader E))
             (eval_outputs E (trained_weights E g) (test_loader E))
             (eval_outputs E (trained_weights E g) (test_loader E))
         @ t
     \<and> list_all is_To_csv t)
   \<and> filter (\<lambda>e. e = Reset_meters \<or> is_Begin_pass e)
        (drop (length (trace g)) (final_trace (run_epoch E epoch g)))
       = [Reset_meters, Begin_pass Train, Reset_meters, Begin_pass Val, Reset_meters, Begin_pass Test]
   \<and> run_epoch E epoch (g\<lparr>meter_loss := ml, meter_accuracy := ma, meter_confusion := mc\<rparr>)
       = run_epoch E epoch g
   \<and> (\<forall>g'. run_epoch E epoch g = Inr g' \<longrightarrow>
         meter_loss g' = eval_losses E (trained_weights E g) (test_loader E)
         \<and> meter_accuracy g' = eval_outputs E (trained_weights E g) (test_loader E)
         \<and> meter_confusion g' = eval_outputs E (trained_weights E g) (test_loader E))"
proof (intro conjI allI impI)
  show "\<exists>t. final_trace (run_epoch E epoch g) =
       trace g @ Reset_meters # Begin_pass Train #
         concat (replicate (length (train_loader E))
           [Forward True (grad_enabled g), Zero_grad, Backward, Optimizer_step])
         @ log_events E Train (epoch + 1) (train_losses E (weights g, optimizer g) (train_loader E))
             (train_outputs E (weights g, optimizer g) (train_loader E))
             (train_outputs E (weights g, optimizer g) (train_loader E))
         @ Reset_meters # Begin_pass Val # replicate (length (val_loader E)) (Forward False False)
         @ log_events E Val (epoch + 1) (eval_losses E (trained_weights E g) (val_loader E))
             (eval_outputs E (trained_weights E g) (val_loader E))
             (eval_outputs E (trained_weights E g) (val_loader E))
         @ (if best_accuracy g < val_top1_of_epoch E g
            then [Torch_save (checkpoint_path g) (trained_weights E g)] else [])
         @ Scheduler_step (val_loss_of_epoch E g) # Reset_meters # Begin_pass Test
         # replicate (length (test_loader E)) (Forward False False)
         @ log_events E Test (epoch + 1) (eval_losses E (trained_weights E g) (test_loader E))
             (eval_outputs E (trained_weights E g) (test_loader E))
             (eval_outputs E (trained_weights E g) (test_loader E))
         @ t
     \<and> list_all is_To_csv t"
    by (rule run_epoch_trace)
next
  obtain t where t: "final_trace (run_epoch E epoch g) =
       trace g @ Reset_meters # Begin_pass Train #
         concat (replicate (length (train_loader E))
           [Forward True (grad_enabled g), Zero_grad, Backward, Optimizer_step])
         @ log_events E Train (epoch + 1) (train_losses E (weights g, optimizer g) (train_loader E))
             (train_outputs E (weights g, optimizer g) (train_loader E))
             (train_outputs E (weights g, optimizer g) (train_loader E))
         @ Reset_meters # Begin_pass Val # replicate (length (val_loader E)) (Forward False False)
         @ log_events E Val (epoch + 1) (eval_losses E (trained_weights E g) (val_loader E))
             (eval_outputs E (trained_weights E g) (val_loader E))
             (eval_outputs E (trained_weights E g) (val_loader E))
         @ (if best_accuracy g < val_top1_of_epoch E g
            then [Torch_save (checkpoint_path g) (trained_weights E g)] else [])
         @ Scheduler_step (val_loss_of_epoch E g) # Reset_meters # Begin_pass Test
         # replicate (length (test_loader E)) (Forward False False)
         @ log_events E Test (epoch + 1) (eval_losses E (trained_weights E g) (test_loader E))
             (eval_outputs E (trained_weights E g) (test_loader E))
             (eval_outputs E (trained_weights E g) (test_loader E))
         @ t" and tcsv: "list_all is_To_csv t"
    using run_epoch_trace by blast
  show "filter (\<lambda>e. e = Reset_meters \<or> is_Begin_pass e)
        (drop (length (trace g)) (final_trace (run_epoch E epoch g)))
       = [Reset_meters, Begin_pass Train, Reset_meters, Begin_pass Val, Reset_meters, Begin_pass Test]"
    unfolding t
    by (simp add: filter_pass_train_batches filter_pass_log_events filter_pass_csv[OF tcsv])
next
  show "run_epoch E epoch (g\<lparr>meter_loss := ml, meter_accuracy := ma, meter_confusion := mc\<rparr>)
       = run_epoch E epoch g"
    by (rule run_epoch_forgets_meters)
next
  fix g' assume a: "run_epoch E epoch g = Inr g'"
  show "meter_loss g' = eval_losses E (trained_weights E g) (test_loader E)"
    "meter_accuracy g' = eval_outputs E (trained_weights E g) (test_loader E)"
    "meter_confusion g' = eval_outputs E (trained_weights E g) (test_loader E)"
    using run_epoch_final_meters[OF a] by simp_all
qed

text \<open>The first epoch of the concrete run, also started with meters that are not empty.\<close>

theorem meters_reset_before_each_phase_witness:
  "filter (\<lambda>e. e = Reset_meters \<or> is_Begin_pass e)
        (drop (length (trace demo_globals)) (final_trace (run_epoch demo_env 0 demo_globals)))
       = [Reset_meters, Begin_pass Train, Reset_meters, Begin_pass Val, Reset_meters, Begin_pass Test]
   \<and> run_epoch demo_env 0 (demo_globals\<lparr>meter_loss := [7], meter_accuracy := [(0, 0)], meter_confusion := [(0, 0)]\<rparr>)
       = run_epoch demo_env 0 demo_globals
   \<and> (\<exists>g'. run_epoch demo_env 0 demo_globals = Inr g'
         \<and> meter_loss g' = [1] \<and> meter_accuracy g' = [(1, 2)] \<and> meter_confusion g' = [(1, 2)])"
proof -
  note inst = meters_reset_before_each_phase[where E = demo_env and epoch = 0 and g = demo_globals
      and ml = "[7]" and ma = "[(0, 0)]" and mc = "[(0, 0)]"]
  have v: "eval_losses demo_env (trained_weights demo_env demo_globals) (test_loader demo_env) = [1]"
    "eval_outputs demo_env (trained_weights demo_env demo_globals) (test_loader demo_env) = [(1, 2)]"
    by (simp_all add: trained_weights_def eval_outputs_def eval_losses_def demo_defs)
  obtain g' where g': "run_epoch demo_env 0 demo_globals = Inr g'"
    by (simp add: eval_eqs upto.simps)
  from inst g' have "meter_loss g' = [1] \<and> meter_accuracy g' = [(1, 2)] \<and> meter_confusion g' = [(1, 2)]"
    unfolding v by blast
  with inst g' show ?thesis by blast
qed

lemma results_append_map_of:
  "map_of (results_append key v rs) k =
     map_option (\<lambda>xs. if k = key then xs @ [v] else xs) (map_of rs k)"
  by (induction rs) (auto simp add: results_append_def)

lemma log_phase_results:
  "results (log_phase E sp epoch g) =
     results_append (split_name sp @ ''_top5_accuracy'') (snd (accuracy_value E (meter_accuracy g)))
       (results_append (split_name sp @ ''_top1_accuracy'') (fst (accuracy_value E (meter_accuracy g)))
         (results_append (split_name sp @ ''_loss'') (fst (loss_value E (meter_loss g))) (results g)))"
  by (simp add: log_phase_eq)

lemma log_phase_val_top1:
  "map_of (results (log_phase E sp epoch g)) ''val_top1_accuracy'' =
     (if sp = Val
      then map_option (\<lambda>xs. xs @ [fst (accuracy_value E (meter_accuracy g))])
             (map_of (results g) ''val_top1_accuracy'')
      else map_of (results g) ''val_top1_accuracy'')"
  by (cases sp) (simp_all add: log_phase_results results_append_map_of split_name_def option.map_ident)

lemma run_epoch_Inr:
  assumes "run_epoch E epoch g = Inr h"
  shows "\<exists>c. h = (log_phase E Test (epoch + 1)
            (no_grad (engine_test E Test (test_loader E)) (reset_meters (lr_step E
              (save_best_model E (validate E (epoch + 1) (train_pass E (on_start_epoch g))))))))
          \<lparr>files := (files (save_best_model E (validate E (epoch + 1) (train_pass E (on_start_epoch g)))))
               (statistics_path g \<mapsto> Statistics c),
           trace := trace (log_phase E Test (epoch + 1)
            (no_grad (engine_test E Test (test_loader E)) (reset_meters (lr_step E
              (save_best_model E (validate E (epoch + 1) (train_pass E (on_start_epoch g))))))))
             @ [To_csv (statistics_path g) c]\<rparr>"
  using save_statistics_Inr[OF assms[unfolded run_epoch_sections finish_epoch_def]]
  by (simp add: statistics_path_def section_fields validate_fields train_pass_fields)

lemma run_epoch_val_column:
  assumes "run_epoch E epoch g = Inr h"
  shows "map_of (results h) ''val_top1_accuracy'' =
     map_option (\<lambda>xs. xs @ [val_top1_of_epoch E g]) (map_of (results g) ''val_top1_accuracy'')"
proof -
  obtain c where h: "h = (log_phase E Test (epoch + 1)
            (no_grad (engine_test E Test (test_loader E)) (reset_meters (lr_step E
              (save_best_model E (validate E (epoch + 1) (train_pass E (on_start_epoch g))))))))
          \<lparr>files := (files (save_best_model E (validate E (epoch + 1) (train_pass E (on_start_epoch g)))))
               (statistics_path g \<mapsto> Statistics c),
           trace := trace (log_phase E Test (epoch + 1)
            (no_grad (engine_test E Test (test_loader E)) (reset_meters (lr_step E
              (save_best_model E (validate E (epoch + 1) (train_pass E (on_start_epoch g))))))))
             @ [To_csv (statistics_path g) c]\<rparr>"
    using run_epoch_Inr[OF assms] by blast
  show ?thesis
    unfolding h
    by (simp add: log_phase_val_top1 section_fields validate_def train_pass_fields
        val_top1_of_epoch_def trained_weights_def)
qed

lemma run_epoch_no_save:
  assumes r: "run_epoch E epoch g = Inr h"
    and le: "\<not> best_accuracy g < val_top1_of_epoch E g"
  shows "filter is_Torch_save (trace h) = filter is_Torch_save (trace g)"
    "files h (checkpoint_path g) = files g (checkpoint_path g)"
    "best_accuracy h = best_accuracy g"
    "checkpoint_path h = checkpoint_path g"
proof -
  let ?d = "validate E (epoch + 1) (train_pass E (on_start_epoch g))"
  have d: "save_best_model E ?d = ?d"
    using le by (simp add: save_best_model_eq validate_fields train_pass_fields
        val_top1_of_epoch_def trained_weights_def)
  obtain c where h: "h = (log_phase E Test (epoch + 1)
            (no_grad (engine_test E Test (test_loader E)) (reset_meters (lr_step E ?d))))
          \<lparr>files := (files ?d) (statistics_path g \<mapsto> Statistics c),
           trace := trace (log_phase E Test (epoch + 1)
            (no_grad (engine_test E Test (test_loader E)) (reset_meters (lr_step E ?d))))
             @ [To_csv (statistics_path g) c]\<rparr>"
    using run_epoch_Inr[OF r] unfolding d by blast
  show "filter is_Torch_save (trace h) = filter is_Torch_save (trace g)"
    unfolding h
    by (simp add: log_phase_trace section_fields validate_trace train_pass_fields log_events_def)
  show "files h (checkpoint_path g) = files g (checkpoint_path g)"
    unfolding h
    by (simp add: validate_fields train_pass_fields checkpoint_path_def statistics_path_def)
  show "best_accuracy h = best_accuracy g"
    unfolding h by (simp add: section_fields validate_fields train_pass_fields)
  show "checkpoint_path h = checkpoint_path g"
    unfolding h by (simp add: checkpoint_path_def section_fields validate_fields train_pass_fields)
qed


lemma run_epoch_checkpoint_path:
  assumes "run_epoch E epoch g = Inr h"
  shows "checkpoint_path h = checkpoint_path g"
proof -
  obtain c where h: "h = (log_phase E Test (epoch + 1)
            (no_grad (engine_test E Test (test_loader E)) (reset_meters (lr_step E
              (save_best_model E (validate E (epoch + 1) (train_pass E (on_start_epoch g))))))))
          \<lparr>files := (files (save_best_model E (validate E (epoch + 1) (train_pass E (on_start_epoch g)))))
               (statistics_path g \<mapsto> Statistics c),
           trace := trace (log_phase E Test (epoch + 1)
            (no_grad (engine_test E Test (test_loader E)) (reset_meters (lr_step E
              (save_best_model E (validate E (epoch + 1) (train_pass E (on_start_epoch g))))))))
             @ [To_csv (statistics_path g) c]\<rparr>"
    using run_epoch_Inr[OF assms] by blast
  show ?thesis
    unfolding h by (simp add: checkpoint_path_def section_fields validate_fields train_pass_fields)
qed

lemma engine_train_checkpoint_path:
  "engine_train E maxepoch epoch g = Inr h \<Longrightarrow> checkpoint_path h = checkpoint_path g"
proof (induction E maxepoch epoch g rule: engine_train.induct)
  case (1 E maxepoch epoch g)
  show ?case
  proof (cases "epoch < maxepoch")
    case False
    with "1.prems" show ?thesis by (simp add: engine_train.simps)
  next
    case True
    with "1.prems" obtain h1 where h1: "run_epoch E epoch g = Inr h1"
      and rest: "engine_train E maxepoch (epoch + 1) h1 = Inr h"
      by (subst (asm) engine_train.simps) (auto split: sum.splits)
    show ?thesis
      using "1.IH"[OF True h1 rest] run_epoch_checkpoint_path[OF h1] by simp
  qed
qed

lemma engine_train_no_save:
  assumes "engine_train E maxepoch epoch g = Inr h"
    and "map_of (results g) ''val_top1_accuracy'' = Some old"
  shows "\<exists>new. map_of (results h) ''val_top1_accuracy'' = Some (old @ new)
     \<and> ((\<forall>a \<in> set new. a \<le> 0) \<longrightarrow> best_accuracy g = 0
          \<longrightarrow> best_accuracy h = 0
            \<and> filter is_Torch_save (trace h) = filter is_Torch_save (trace g)
            \<and> files h (checkpoint_path h) = files g (checkpoint_path g))"
  using assms
proof (induction E maxepoch epoch g arbitrary: old rule: engine_train.induct)
  case (1 E maxepoch epoch g)
  show ?case
  proof (cases "epoch < maxepoch")
    case False
    with "1.prems" have "h = g" by (simp add: engine_train.simps)
    with "1.prems" show ?thesis by simp
  next
    case True
    with "1.prems" obtain h1 where h1: "run_epoch E epoch g = Inr h1"
      and rest: "engine_train E maxepoch (epoch + 1) h1 = Inr h"
      by (subst (asm) engine_train.simps) (auto split: sum.splits)
    have col: "map_of (results h1) ''val_top1_accuracy'' = Some (old @ [val_top1_of_epoch E g])"
      using run_epoch_val_column[OF h1] "1.prems"(2) by simp
    obtain new where new: "map_of (results h) ''val_top1_accuracy'' = Some ((old @ [val_top1_of_epoch E g]) @ new)"
      and keep: "(\<forall>a \<in> set new. a \<le> 0) \<longrightarrow> best_accuracy h1 = 0
          \<longrightarrow> best_accuracy h = 0
            \<and> filter is_Torch_save (trace h) = filter is_Torch_save (trace h1)
            \<and> files h (checkpoint_path h) = files h1 (checkpoint_path h1)"
      using "1.IH"[OF True h1 rest col] by blast
    have "(\<forall>a \<in> set (val_top1_of_epoch E g # new). a \<le> 0) \<longrightarrow> best_accuracy g = 0
          \<longrightarrow> best_accuracy h = 0
            \<and> filter is_Torch_save (trace h) = filter is_Torch_save (trace g)
            \<and> files h (checkpoint_path h) = files g (checkpoint_path g)"
    proof (intro impI)
      assume a: "\<forall>a \<in> set (val_top1_of_epoch E g # new). a \<le> 0" and b: "best_accuracy g = 0"
      then have le: "\<not> best_accuracy g < val_top1_of_epoch E g" by simp
      note s = run_epoch_no_save[OF h1 le]
      from a b keep s show "best_accuracy h = 0
            \<and> filter is_Torch_save (trace h) = filter is_Torch_save (trace g)
            \<and> files h (checkpoint_path h) = files g (checkpoint_path g)"
        by simp
    qed
    with new show ?thesis by (intro exI[of _ "val_top1_of_epoch E g # new"]) simp
  qed
qed

text \<open>
  Claim C10. In a run from the initial state, where the tracker is 0: an epoch that
  starts in a state reached after any number of epochs and whose validation top1
  accuracy is exactly 0 records that 0, adds no checkpoint write to the trace and
  leaves the checkpoint file as it was. And when every validation top1 accuracy that
  the run has recorded is 0, the trace of the run holds no checkpoint write and no
  checkpoint file exists.
\<close>

theorem zero_accuracy_writes_no_checkpoint:
  "(\<forall>K g h. engine_train E K 0 (initial_globals E op m) = Inr g
        \<and> run_epoch E epoch g = Inr h \<and> val_top1_of_epoch E g = 0
      \<longrightarrow> map_of (results h) ''val_top1_accuracy''
            = map_option (\<lambda>xs. xs @ [0]) (map_of (results g) ''val_top1_accuracy'')
          \<and> filter is_Torch_save (trace h) = filter is_Torch_save (trace g)
          \<and> files h (checkpoint_path g) = files g (checkpoint_path g))
   \<and> (\<forall>K g. engine_train E K 0 (initial_globals E op m) = Inr g
      \<longrightarrow> (\<exists>accs. map_of (results g) ''val_top1_accuracy'' = Some accs
            \<and> ((\<forall>a \<in> set accs. a = 0)
                 \<longrightarrow> \<not> list_ex is_Torch_save (trace g)
                     \<and> files g (''epochs/'' @ data_type op @ ''_'' @ model_type op @ ''.pth'') = None)))"
proof (intro conjI allI impI)
  fix K g h
  assume a: "engine_train E K 0 (initial_globals E op m) = Inr g
        \<and> run_epoch E epoch g = Inr h \<and> val_top1_of_epoch E g = 0"
  have "best_accuracy (initial_globals E op m) \<le> best_accuracy g"
    using a engine_train_best_mono by blast
  then have le: "\<not> best_accuracy g < val_top1_of_epoch E g"
    using a by (simp add: initial_globals_def)
  from a have r: "run_epoch E epoch g = Inr h" by simp
  show "map_of (results h) ''val_top1_accuracy''
            = map_option (\<lambda>xs. xs @ [0]) (map_of (results g) ''val_top1_accuracy'')"
    using run_epoch_val_column[OF r] a by simp
  show "filter is_Torch_save (trace h) = filter is_Torch_save (trace g)"
    by (rule run_epoch_no_save(1)[OF r le])
  show "files h (checkpoint_path g) = files g (checkpoint_path g)"
    by (rule run_epoch_no_save(2)[OF r le])
next
  fix K g
  assume a: "engine_train E K 0 (initial_globals E op m) = Inr g"
  have c0: "map_of (results (initial_globals E op m)) ''val_top1_accuracy'' = Some []"
    by (simp add: initial_globals_def empty_results_def)
  obtain new where new: "map_of (results g) ''val_top1_accuracy'' = Some ([] @ new)"
    and keep: "(\<forall>a \<in> set new. a \<le> 0) \<longrightarrow> best_accuracy (initial_globals E op m) = 0
          \<longrightarrow> best_accuracy g = 0
            \<and> filter is_Torch_save (trace g) = filter is_Torch_save (trace (initial_globals E op m))
            \<and> files g (checkpoint_path g) = files (initial_globals E op m) (checkpoint_path (initial_globals E op m))"
    using engine_train_no_save[OF a c0] by blast
  have path: "checkpoint_path g = ''epochs/'' @ data_type op @ ''_'' @ model_type op @ ''.pth''"
    using engine_train_checkpoint_path[OF a] by (simp add: checkpoint_path_def initial_globals_def)
  show "\<exists>accs. map_of (results g) ''val_top1_accuracy'' = Some accs
            \<and> ((\<forall>a \<in> set accs. a = 0)
                 \<longrightarrow> \<not> list_ex is_Torch_save (trace g)
                     \<and> files g (''epochs/'' @ data_type op @ ''_'' @ model_type op @ ''.pth'') = None)"
  proof (intro exI conjI impI)
    show "map_of (results g) ''val_top1_accuracy'' = Some new" using new by simp
    assume z: "\<forall>a \<in> set new. a = 0"
    then have "\<forall>a \<in> set new. a \<le> 0" by auto
    with keep have k: "filter is_Torch_save (trace g) = []" "files g (checkpoint_path g) = None"
      by (simp_all add: initial_globals_def)
    show "\<not> list_ex is_Torch_save (trace g)"
      using k(1) by (simp add: list_ex_iff filter_empty_conv)
    show "files g (''epochs/'' @ data_type op @ ''_'' @ model_type op @ ''.pth'') = None"
      using k(2) path by simp
  qed
qed


text \<open>The concrete run with a validation set on which the network is always wrong.\<close>

theorem zero_accuracy_writes_no_checkpoint_witness:
  "(\<exists>g. engine_train (demo_env\<lparr>val_loader := [(0, 1)]\<rparr>) 1 0
           (initial_globals (demo_env\<lparr>val_loader := [(0, 1)]\<rparr>) demo_opt 0) = Inr g
      \<and> map_of (results g) ''val_top1_accuracy'' = Some [0]
      \<and> \<not> list_ex is_Torch_save (trace g)
      \<and> files g ''epochs/ucf101_c3d.pth'' = None)
   \<and> val_top1_of_epoch (demo_env\<lparr>val_loader := [(0, 1)]\<rparr>)
         (initial_globals (demo_env\<lparr>val_loader := [(0, 1)]\<rparr>) demo_opt 0) = 0
   \<and> (\<exists>h. run_epoch (demo_env\<lparr>val_loader := [(0, 1)]\<rparr>) 0
           (initial_globals (demo_env\<lparr>val_loader := [(0, 1)]\<rparr>) demo_opt 0) = Inr h
      \<and> filter is_Torch_save (trace h) = [])"
proof -
  let ?E = "demo_env\<lparr>val_loader := [(0, 1)]\<rparr>"
  let ?G = "initial_globals ?E demo_opt 0"
  note inst = zero_accuracy_writes_no_checkpoint[of ?E demo_opt 0 0]
  have "\<exists>g. engine_train ?E 1 0 ?G = Inr g \<and> map_of (results g) ''val_top1_accuracy'' = Some [0]"
    by (simp add: engine_train.simps eval_eqs upto.simps)
  then obtain g where g: "engine_train ?E 1 0 ?G = Inr g"
    and col: "map_of (results g) ''val_top1_accuracy'' = Some [0]"
    by blast
  have p: "''epochs/'' @ data_type demo_opt @ ''_'' @ model_type demo_opt @ ''.pth'' = ''epochs/ucf101_c3d.pth''"
    by (simp add: demo_opt_def)
  from inst g col have n: "\<not> list_ex is_Torch_save (trace g) \<and> files g ''epochs/ucf101_c3d.pth'' = None"
    unfolding p by fastforce
  have g0: "engine_train ?E 0 0 ?G = Inr ?G" by (simp add: engine_train.simps)
  have v: "val_top1_of_epoch ?E ?G = 0"
    by (simp add: val_top1_of_epoch_def trained_weights_def eval_outputs_def demo_defs)
  obtain h where h: "run_epoch ?E 0 ?G = Inr h"
    by (simp add: eval_eqs upto.simps)
  from inst g0 h v have "filter is_Torch_save (trace h) = filter is_Torch_save (trace ?G)"
    by blast
  then have "filter is_Torch_save (trace h) = []" by (simp add: initial_globals_def)
  with g col n v h show ?thesis by blast
qed










end
